theory Spec2Isabelle
  imports Main "HOL-Library.Word" "HOL-Library.Sublist"
begin

unbundle bit_operations_syntax

section \<open>Machine integers, byte slices, errors\<close>

type_synonym u8 = "8 word"
type_synonym u16 = "16 word"
type_synonym u32 = "32 word"

text \<open>
  A Go \<^verbatim>\<open>[]byte\<close> is a list of bytes. A Go \<^verbatim>\<open>string\<close> is an immutable byte sequence
  (\<^verbatim>\<open>len\<close> counts bytes, \<^verbatim>\<open>[]byte(s)\<close> copies them), so it is a list of bytes too.
  \<^verbatim>\<open>nil\<close> and the empty slice are both \<open>[]\<close>.
\<close>

type_synonym bytes = "u8 list"

text \<open>
  The error sentinels of the repository that the code under study returns or is tested
  against: \<^verbatim>\<open>util.ErrInvalidIP4\<close>, \<^verbatim>\<open>util.ErrNoStringTerminatorFound\<close>,
  \<^verbatim>\<open>io.ErrShortBuffer\<close>, \<^verbatim>\<open>w3g.ErrBadFormat\<close>, \<^verbatim>\<open>w3g.ErrUnexpectedConst\<close> and
  \<^verbatim>\<open>bncs.ErrInvalidPacketSize\<close>. They are distinct values, compared by identity.
\<close>

datatype error =
    ErrInvalidIP4
  | ErrNoStringTerminatorFound
  | ErrShortBuffer
  | ErrBadFormat
  | ErrUnexpectedConst
  | ErrInvalidPacketSize

text \<open>
  The outcome of a call that can fail: a run-time panic (index or slice bounds out of
  range), a returned error, or a value.
\<close>

datatype 'a result = Panic | Err error | Ok 'a

definition rbind :: "'a result \<Rightarrow> ('a \<Rightarrow> 'b result) \<Rightarrow> 'b result" where
  "rbind m f = (case m of Panic \<Rightarrow> Panic | Err e \<Rightarrow> Err e | Ok x \<Rightarrow> f x)"

section \<open>PacketBuffer\<close>

text \<open>
  \<^verbatim>\<open>type PacketBuffer struct { Bytes []byte }\<close>: the struct has the one field, so the
  buffer is its byte slice. A method with a pointer receiver that changes \<^verbatim>\<open>b.Bytes\<close>
  returns the new buffer.
\<close>

type_synonym PacketBuffer = bytes

definition Size :: "PacketBuffer \<Rightarrow> int" where
  "Size b = int (length b)"

text \<open>\<^verbatim>\<open>b.Bytes = b.Bytes[len:]\<close> panics unless \<open>0 \<le> len \<le> len(b.Bytes)\<close>.\<close>

definition Skip :: "PacketBuffer \<Rightarrow> int \<Rightarrow> PacketBuffer result" where
  "Skip b n = (if 0 \<le> n \<and> n \<le> Size b then Ok (drop (nat n) b) else Panic)"

definition WriteBlob :: "PacketBuffer \<Rightarrow> bytes \<Rightarrow> PacketBuffer" where
  "WriteBlob b v = b @ v"

definition WriteUInt8 :: "PacketBuffer \<Rightarrow> u8 \<Rightarrow> PacketBuffer" where
  "WriteUInt8 b v = b @ [v]"

definition WriteUInt16 :: "PacketBuffer \<Rightarrow> u16 \<Rightarrow> PacketBuffer" where
  "WriteUInt16 b v = b @ [ucast v, ucast (drop_bit 8 v)]"

definition WriteUInt32 :: "PacketBuffer \<Rightarrow> u32 \<Rightarrow> PacketBuffer" where
  "WriteUInt32 b v =
     b @ [ucast v, ucast (drop_bit 8 v), ucast (drop_bit 16 v), ucast (drop_bit 24 v)]"

definition WriteBool :: "PacketBuffer \<Rightarrow> bool \<Rightarrow> PacketBuffer" where
  "WriteBool b v = b @ [if v then 1 else 0]"

definition WritePort :: "PacketBuffer \<Rightarrow> u16 \<Rightarrow> PacketBuffer" where
  "WritePort b v = b @ [ucast (drop_bit 8 v), ucast v]"

text \<open>
  \<^verbatim>\<open>net.IP\<close> is a byte slice. \<^verbatim>\<open>To4\<close> is the Go standard library's: a 4-byte slice is
  returned as it is, a 16-byte IPv4-mapped address (ten zero bytes, then \<^verbatim>\<open>ff ff\<close>)
  gives its last four bytes, anything else gives \<^verbatim>\<open>nil\<close>.
\<close>

definition To4 :: "bytes \<Rightarrow> bytes option" where
  "To4 ip =
     (if length ip = 4 then Some ip
      else if length ip = 16 \<and> take 10 ip = replicate 10 0 \<and> ip ! 10 = 0xff \<and> ip ! 11 = 0xff
        then Some (drop 12 ip)
      else None)"

definition WriteIP :: "PacketBuffer \<Rightarrow> bytes \<Rightarrow> PacketBuffer \<times> error option" where
  "WriteIP b v =
     (case To4 v of
        Some ip4 \<Rightarrow> (WriteBlob b ip4, None)
      | None \<Rightarrow> (WriteUInt32 b 0, Some ErrInvalidIP4))"

definition WriteString :: "PacketBuffer \<Rightarrow> bytes \<Rightarrow> PacketBuffer" where
  "WriteString b s = WriteUInt8 (WriteBlob b s) 0"

text \<open>
  \<^verbatim>\<open>b.Bytes[p+1], b.Bytes[p] = byte(v>>8), byte(v)\<close>: an index out of range panics.
\<close>

definition WriteUInt16At :: "PacketBuffer \<Rightarrow> int \<Rightarrow> u16 \<Rightarrow> PacketBuffer result" where
  "WriteUInt16At b p v =
     (if 0 \<le> p \<and> p + 1 < Size b
      then Ok (b[nat p + 1 := ucast (drop_bit 8 v), nat p := ucast v])
      else Panic)"

text \<open>
  \<^verbatim>\<open>ReadBlob\<close>: for \<open>len > 0\<close> the two slice expressions \<^verbatim>\<open>b.Bytes[:len]\<close> and
  \<^verbatim>\<open>b.Bytes[len:]\<close> run; the second panics whenever \<open>len > len(b.Bytes)\<close> (whatever the
  capacity lets the first do), so the call panics exactly then.
\<close>

definition ReadBlob :: "PacketBuffer \<Rightarrow> int \<Rightarrow> (bytes \<times> PacketBuffer) result" where
  "ReadBlob b n =
     (if n > 0 then
        (if n \<le> Size b then Ok (take (nat n) b, drop (nat n) b) else Panic)
      else Ok ([], b))"

definition ReadUInt8 :: "PacketBuffer \<Rightarrow> (u8 \<times> PacketBuffer) result" where
  "ReadUInt8 b = (if Size b < 1 then Panic else Ok (b ! 0, drop 1 b))"

definition ReadUInt16 :: "PacketBuffer \<Rightarrow> (u16 \<times> PacketBuffer) result" where
  "ReadUInt16 b =
     (if Size b < 2 then Panic
      else Ok (push_bit 8 (ucast (b ! 1)) OR ucast (b ! 0), drop 2 b))"

definition ReadUInt32 :: "PacketBuffer \<Rightarrow> (u32 \<times> PacketBuffer) result" where
  "ReadUInt32 b =
     (if Size b < 4 then Panic
      else Ok (push_bit 24 (ucast (b ! 3)) OR push_bit 16 (ucast (b ! 2))
                 OR push_bit 8 (ucast (b ! 1)) OR ucast (b ! 0), drop 4 b))"

definition ReadBool :: "PacketBuffer \<Rightarrow> (bool \<times> PacketBuffer) result" where
  "ReadBool b = (if Size b < 1 then Panic else Ok (b ! 0 > 0, drop 1 b))"

definition ReadPort :: "PacketBuffer \<Rightarrow> (u16 \<times> PacketBuffer) result" where
  "ReadPort b =
     (if Size b < 2 then Panic
      else Ok (ucast (b ! 1) OR push_bit 8 (ucast (b ! 0)), drop 2 b))"

text \<open>
  \<^verbatim>\<open>bytes.IndexByte\<close> of the Go standard library: the index of the first occurrence of
  \<open>c\<close>, or \<open>-1\<close>.
\<close>

fun IndexByte :: "bytes \<Rightarrow> u8 \<Rightarrow> int" where
  "IndexByte [] c = - 1"
| "IndexByte (x # xs) c =
     (if x = c then 0
      else (let i = IndexByte xs c in if i = - 1 then - 1 else i + 1))"

text \<open>
  \<^verbatim>\<open>ReadString\<close> returns the string and the error, and leaves the buffer changed in both
  branches: the result is (string, error or nil, buffer afterwards).
\<close>

definition ReadString :: "PacketBuffer \<Rightarrow> bytes \<times> error option \<times> PacketBuffer" where
  "ReadString b =
     (let pos = IndexByte b 0 in
      if pos = - 1 then ([], Some ErrNoStringTerminatorFound, drop (length b) b)
      else (take (nat pos) b, None, drop (nat (pos + 1)) b))"

text \<open>
  The W3G record code calls \<^verbatim>\<open>protocol.Buffer\<close>, whose file is not among the files
  modelled here; \<^verbatim>\<open>util.PacketBuffer\<close> above is the same buffer of the repository, and the
  methods the two share by name (\<^verbatim>\<open>Size\<close>, \<^verbatim>\<open>Skip\<close>, \<^verbatim>\<open>WriteUInt8\<close>, \<^verbatim>\<open>ReadBlob\<close>, ...)
  are taken from it.
\<close>

text \<open>
  Modelled from the spec: \<^verbatim>\<open>protocol.Buffer.WriteCString\<close> and \<^verbatim>\<open>ReadCString\<close> are
  missing; the spec describes the null-terminated string codec that \<^verbatim>\<open>WriteString\<close> and
  \<^verbatim>\<open>ReadString\<close> implement ("reading scans for the first zero, returns the prefix, and
  advances past the zero"; without a zero "the buffer is drained to empty").
\<close>

definition WriteCString :: "PacketBuffer \<Rightarrow> bytes \<Rightarrow> PacketBuffer" where
  "WriteCString b s = WriteString b s"

definition ReadCString :: "PacketBuffer \<Rightarrow> bytes \<times> error option \<times> PacketBuffer" where
  "ReadCString b = ReadString b"

text \<open>
  Modelled from the spec: \<^verbatim>\<open>protocol.Buffer.WriteBool32\<close> and \<^verbatim>\<open>ReadBool32\<close> are missing;
  the spec gives \<^verbatim>\<open>bool32\<close> as a "4-byte 0/1". Reading follows \<^verbatim>\<open>ReadBool\<close>: any non-zero
  value is true.
\<close>

definition WriteBool32 :: "PacketBuffer \<Rightarrow> bool \<Rightarrow> PacketBuffer" where
  "WriteBool32 b v = WriteUInt32 b (if v then 1 else 0)"

definition ReadBool32 :: "PacketBuffer \<Rightarrow> (bool \<times> PacketBuffer) result" where
  "ReadBool32 b = rbind (ReadUInt32 b) (\<lambda>(v, b1). Ok (v > 0, b1))"

section \<open>W3G records\<close>

text \<open>\<^verbatim>\<open>Encoding\<close> embeds \<^verbatim>\<open>w3gs.Encoding\<close>, whose field the code reads is \<^verbatim>\<open>GameVersion\<close>.\<close>

record Encoding =
  GameVersion :: u32

text \<open>
  Modelled from the spec: the record identifiers are constants of package \<^verbatim>\<open>w3g\<close> whose
  declarations are missing. The spec lists the identifiers
  \<^verbatim>\<open>0x10, 0x16, 0x17, 0x19, 0x1A, 0x1B, 0x1C, 0x1E, 0x1F, 0x20, 0x22, 0x23, 0x2F, 0x39\<close> for
  GameInfo, PlayerInfo, PlayerLeft, SlotInfo, CountDownStart, CountDownEnd, GameStart,
  TimeSlot, TimeSlot2, ChatMessage, TimeSlotAck, Desync, EndTimer, PlayerExtra.
\<close>

definition RidGameInfo :: u8 where "RidGameInfo = 0x10"
definition RidPlayerInfo :: u8 where "RidPlayerInfo = 0x16"
definition RidPlayerLeft :: u8 where "RidPlayerLeft = 0x17"
definition RidSlotInfo :: u8 where "RidSlotInfo = 0x19"
definition RidCountDownStart :: u8 where "RidCountDownStart = 0x1A"
definition RidCountDownEnd :: u8 where "RidCountDownEnd = 0x1B"
definition RidGameStart :: u8 where "RidGameStart = 0x1C"
definition RidTimeSlot :: u8 where "RidTimeSlot = 0x1E"
definition RidTimeSlot2 :: u8 where "RidTimeSlot2 = 0x1F"
definition RidChatMessage :: u8 where "RidChatMessage = 0x20"
definition RidTimeSlotAck :: u8 where "RidTimeSlotAck = 0x22"
definition RidDesync :: u8 where "RidDesync = 0x23"
definition RidEndTimer :: u8 where "RidEndTimer = 0x2F"
definition RidPlayerExtra :: u8 where "RidPlayerExtra = 0x39"

text \<open>
  Modelled from the spec: the message types and scopes are constants of package \<^verbatim>\<open>w3gs\<close>
  whose declarations are missing. The record format table in the source gives the type
  byte \<^verbatim>\<open>0x10\<close> to messages without a chat mode and \<^verbatim>\<open>0x20\<close> to normal messages, which
  carry one; the spec's scenario gives \<^verbatim>\<open>chat_extra\<close> the byte \<^verbatim>\<open>0x20\<close> and the scope
  \<^verbatim>\<open>all\<close> the value 0.
\<close>

definition MsgChat :: u8 where "MsgChat = 0x10"
definition MsgChatExtra :: u8 where "MsgChatExtra = 0x20"
definition ScopeAll :: u32 where "ScopeAll = 0"

text \<open>
  The dynamic type of a record value. A factory constructor returns \<^verbatim>\<open>&T{}\<close>, the zero
  value of a type, so its result is given by the type alone.
\<close>

datatype RecordKind =
    KGameInfo | KPlayerInfo | KPlayerLeft | KSlotInfo | KCountDownStart | KCountDownEnd
  | KGameStart | KTimeSlot | KChatMessage | KTimeSlotAck | KDesync | KEndTimer | KPlayerExtra

text \<open>\<^verbatim>\<open>DefaultFactory\<close>: a map from record identifier to constructor.\<close>

definition DefaultFactory :: "u8 \<rightharpoonup> (Encoding \<Rightarrow> RecordKind)" where
  "DefaultFactory = map_of
     [(RidGameInfo, \<lambda>_. KGameInfo),
      (RidPlayerInfo, \<lambda>_. KPlayerInfo),
      (RidPlayerLeft, \<lambda>_. KPlayerLeft),
      (RidSlotInfo, \<lambda>_. KSlotInfo),
      (RidCountDownStart, \<lambda>_. KCountDownStart),
      (RidCountDownEnd, \<lambda>_. KCountDownEnd),
      (RidGameStart, \<lambda>_. KGameStart),
      (RidTimeSlot2, \<lambda>_. KTimeSlot),
      (RidTimeSlot, \<lambda>_. KTimeSlot),
      (RidChatMessage, \<lambda>e.
         if GameVersion e = 0 \<or> GameVersion e > 2 then KChatMessage else KTimeSlotAck),
      (RidTimeSlotAck, \<lambda>_. KTimeSlotAck),
      (RidDesync, \<lambda>_. KDesync),
      (RidEndTimer, \<lambda>_. KEndTimer),
      (RidPlayerExtra, \<lambda>_. KPlayerExtra)]"

subsection \<open>PlayerInfo [0x16]\<close>

text \<open>
  The integer types \<^verbatim>\<open>w3gs.RacePref\<close>, \<^verbatim>\<open>w3gs.LeaveReason\<close> and \<^verbatim>\<open>w3gs.GameFlags\<close> are
  declared outside the files modelled here; the fields are kept at the width the code
  writes them with (\<^verbatim>\<open>uint32(rec.Race)\<close>), and the conversions are the identity.
\<close>

record PlayerInfo =
  ID :: u8
  Name :: bytes
  Race :: u32
  JoinCounter :: u32

definition PlayerInfo_SerializeContent ::
    "PlayerInfo \<Rightarrow> PacketBuffer \<Rightarrow> Encoding \<Rightarrow> PacketBuffer" where
  "PlayerInfo_SerializeContent rec buf enc =
     (let b1 = WriteUInt8 buf (ID rec);
          b2 = WriteCString b1 (Name rec)
      in if JoinCounter rec = 0 \<and> Race rec = 0
         then WriteUInt8 (WriteUInt8 b2 1) 0
         else WriteUInt32 (WriteUInt32 (WriteUInt8 b2 8) (JoinCounter rec)) (Race rec))"

text \<open>A \<^verbatim>\<open>Serialize\<close> that ends in \<^verbatim>\<open>return nil\<close> gives \<open>Ok\<close> of the buffer it wrote.\<close>

definition PlayerInfo_Serialize ::
    "PlayerInfo \<Rightarrow> PacketBuffer \<Rightarrow> Encoding \<Rightarrow> PacketBuffer result" where
  "PlayerInfo_Serialize rec buf enc =
     (let b1 = WriteUInt8 buf RidPlayerInfo;
          b2 = PlayerInfo_SerializeContent rec b1 enc
      in Ok (WriteUInt32 b2 0))"

text \<open>
  A \<^verbatim>\<open>Deserialize\<close> changes its receiver and the buffer and returns an error. The model
  takes the receiver \<open>rec\<close> and returns, when the error is \<^verbatim>\<open>nil\<close>, the receiver and the
  buffer as the call leaves them.
\<close>

definition PlayerInfo_DeserializeContent ::
    "PlayerInfo \<Rightarrow> PacketBuffer \<Rightarrow> Encoding \<Rightarrow> (PlayerInfo \<times> PacketBuffer) result" where
  "PlayerInfo_DeserializeContent rec buf enc =
     (if Size buf < 4 then Err ErrShortBuffer
      else rbind (ReadUInt8 buf) (\<lambda>(i, b1).
        let rec1 = rec\<lparr>ID := i\<rparr> in
        case ReadCString b1 of
          (s, Some err, b2) \<Rightarrow> Err err
        | (s, None, b2) \<Rightarrow>
            let rec2 = rec1\<lparr>Name := s\<rparr> in
            if Size b2 < 2 then Err ErrShortBuffer
            else rbind (ReadUInt8 b2) (\<lambda>(len, b3).
              if Size b3 < uint len then Err ErrShortBuffer
              else if len = 0x01 \<or> len = 0x02 then
                rbind (Skip b3 (uint len)) (\<lambda>b4.
                  Ok (rec2\<lparr>JoinCounter := 0, Race := 0\<rparr>, b4))
              else if len = 0x00 then
                Ok (rec2\<lparr>JoinCounter := 0, Race := 0\<rparr>, b3)
              else if len = 0x08 then
                rbind (ReadUInt32 b3) (\<lambda>(jc, b4).
                rbind (ReadUInt32 b4) (\<lambda>(r, b5).
                  Ok (rec2\<lparr>JoinCounter := jc, Race := r\<rparr>, b5)))
              else Err ErrUnexpectedConst)))"

definition PlayerInfo_Deserialize ::
    "PlayerInfo \<Rightarrow> PacketBuffer \<Rightarrow> Encoding \<Rightarrow> (PlayerInfo \<times> PacketBuffer) result" where
  "PlayerInfo_Deserialize rec buf enc =
     (if Size buf < 9 then Err ErrShortBuffer
      else rbind (Skip buf 1) (\<lambda>b1.
        rbind (PlayerInfo_DeserializeContent rec b1 enc) (\<lambda>(rec1, b2).
          if Size b2 < 4 then Err ErrShortBuffer
          else rbind (Skip b2 4) (\<lambda>b3. Ok (rec1, b3)))))"

subsection \<open>GameInfo [0x10]\<close>

text \<open>
  \<^verbatim>\<open>w3gs.GameSettings\<close> and its \<^verbatim>\<open>DeserializeContent\<close> are outside the files modelled
  here: the type is the parameter \<open>'gs\<close> and the method the parameter \<open>gsd\<close>.
\<close>

record 'gs GameInfo =
  HostPlayer :: PlayerInfo
  GameName :: bytes
  GameSettings :: 'gs
  GameFlags :: u32
  NumSlots :: u32
  LanguageID :: u32

definition GameInfo_Deserialize ::
    "('gs \<Rightarrow> PacketBuffer \<Rightarrow> Encoding \<Rightarrow> ('gs \<times> PacketBuffer) result) \<Rightarrow>
     'gs GameInfo \<Rightarrow> PacketBuffer \<Rightarrow> Encoding \<Rightarrow> ('gs GameInfo \<times> PacketBuffer) result" where
  "GameInfo_Deserialize gsd rec buf enc =
     (if Size buf < 24 then Err ErrShortBuffer
      else rbind (Skip buf 1) (\<lambda>b1.
        rbind (ReadUInt32 b1) (\<lambda>(one, b2).
          if one \<noteq> 1 then Err ErrUnexpectedConst
          else rbind (PlayerInfo_DeserializeContent (HostPlayer rec) b2 enc) (\<lambda>(hp, b3).
            if Size b3 < 15 then Err ErrShortBuffer
            else case ReadCString b3 of
              (s, Some err, b4) \<Rightarrow> Err err
            | (s, None, b4) \<Rightarrow>
                if Size b4 < 14 then Err ErrShortBuffer
                else rbind (ReadUInt8 b4) (\<lambda>(z, b5).
                  if z \<noteq> 0 then Err ErrUnexpectedConst
                  else rbind (gsd (GameSettings rec) b5 enc) (\<lambda>(gs, b6).
                    if Size b6 < 12 then Err ErrShortBuffer
                    else rbind (ReadUInt32 b6) (\<lambda>(ns, b7).
                      rbind (ReadUInt32 b7) (\<lambda>(gf, b8).
                      rbind (ReadUInt32 b8) (\<lambda>(li, b9).
                        Ok (rec\<lparr>HostPlayer := hp, GameName := s, GameSettings := gs,
                                NumSlots := ns, GameFlags := gf, LanguageID := li\<rparr>,
                            b9))))))))))"

subsection \<open>PlayerLeft [0x17]\<close>

record PlayerLeft =
  Local :: bool
  PlayerID :: u8
  Reason :: u32
  Counter :: u32

definition PlayerLeft_Serialize ::
    "PlayerLeft \<Rightarrow> PacketBuffer \<Rightarrow> Encoding \<Rightarrow> PacketBuffer result" where
  "PlayerLeft_Serialize rec buf enc =
     (let b1 = WriteUInt8 buf RidPlayerLeft;
          b2 = (if Local rec then WriteUInt32 b1 0x0C else WriteUInt32 b1 0x01);
          b3 = WriteUInt8 b2 (PlayerLeft.PlayerID rec);
          b4 = WriteUInt32 b3 (Reason rec)
      in Ok (WriteUInt32 b4 (Counter rec)))"

definition PlayerLeft_Deserialize ::
    "PlayerLeft \<Rightarrow> PacketBuffer \<Rightarrow> Encoding \<Rightarrow> (PlayerLeft \<times> PacketBuffer) result" where
  "PlayerLeft_Deserialize rec buf enc =
     (if Size buf < 14 then Err ErrShortBuffer
      else rbind (Skip buf 1) (\<lambda>b1.
        rbind (ReadUInt32 b1) (\<lambda>(c, b2).
        rbind (if c = 0x01 \<or> c = 0x0E then Ok (rec\<lparr>Local := False\<rparr>)
               else if c = 0x0C then Ok (rec\<lparr>Local := True\<rparr>)
               else Err ErrUnexpectedConst) (\<lambda>rec1.
        rbind (ReadUInt8 b2) (\<lambda>(pid, b3).
        rbind (ReadUInt32 b3) (\<lambda>(rs, b4).
        rbind (ReadUInt32 b4) (\<lambda>(cn, b5).
          Ok (rec1\<lparr>PlayerLeft.PlayerID := pid, Reason := rs, Counter := cn\<rparr>, b5))))))))"

subsection \<open>SlotInfo [0x19], Desync [0x23], PlayerExtra [0x39]\<close>

text \<open>
  These records wrap a \<^verbatim>\<open>w3gs\<close> structure and delegate to its \<^verbatim>\<open>DeserializeContent\<close>,
  which is outside the files modelled here: the wrapped type is the parameter \<open>'a\<close> and
  the method the parameter \<open>dc\<close>.
\<close>

definition SlotInfo_Deserialize ::
    "('a \<Rightarrow> PacketBuffer \<Rightarrow> Encoding \<Rightarrow> ('a \<times> PacketBuffer) result) \<Rightarrow>
     'a \<Rightarrow> PacketBuffer \<Rightarrow> Encoding \<Rightarrow> ('a \<times> PacketBuffer) result" where
  "SlotInfo_Deserialize dc rec buf enc =
     (if Size buf < 10 then Err ErrShortBuffer
      else rbind (Skip buf 1) (\<lambda>b1. dc rec b1 enc))"

definition Desync_Deserialize ::
    "('a \<Rightarrow> PacketBuffer \<Rightarrow> Encoding \<Rightarrow> ('a \<times> PacketBuffer) result) \<Rightarrow>
     'a \<Rightarrow> PacketBuffer \<Rightarrow> Encoding \<Rightarrow> ('a \<times> PacketBuffer) result" where
  "Desync_Deserialize dc rec buf enc =
     (if Size buf < 11 then Err ErrShortBuffer
      else rbind (Skip buf 1) (\<lambda>b1. dc rec b1 enc))"

definition PlayerExtra_Deserialize ::
    "('a \<Rightarrow> PacketBuffer \<Rightarrow> Encoding \<Rightarrow> ('a \<times> PacketBuffer) result) \<Rightarrow>
     'a \<Rightarrow> PacketBuffer \<Rightarrow> Encoding \<Rightarrow> ('a \<times> PacketBuffer) result" where
  "PlayerExtra_Deserialize dc rec buf enc =
     (if Size buf < 6 then Err ErrShortBuffer
      else rbind (Skip buf 1) (\<lambda>b1. dc rec b1 enc))"

subsection \<open>GameStart [0x1C], CountDownStart [0x1A], CountDownEnd [0x1B]\<close>

text \<open>
  \<^verbatim>\<open>GameStart\<close> is an empty struct; \<^verbatim>\<open>CountDownStart\<close> and \<^verbatim>\<open>CountDownEnd\<close> embed it,
  override \<^verbatim>\<open>Serialize\<close> and inherit \<^verbatim>\<open>Deserialize\<close>.
\<close>

definition GameStart_Serialize :: "PacketBuffer \<Rightarrow> Encoding \<Rightarrow> PacketBuffer result" where
  "GameStart_Serialize buf enc = Ok (WriteUInt32 (WriteUInt8 buf RidGameStart) 0x01)"

definition GameStart_Deserialize :: "PacketBuffer \<Rightarrow> Encoding \<Rightarrow> PacketBuffer result" where
  "GameStart_Deserialize buf enc =
     (if Size buf < 5 then Err ErrShortBuffer
      else rbind (Skip buf 1) (\<lambda>b1.
        rbind (ReadUInt32 b1) (\<lambda>(c, b2).
          if c \<noteq> 0x01 then Err ErrUnexpectedConst else Ok b2)))"

definition CountDownStart_Serialize :: "PacketBuffer \<Rightarrow> Encoding \<Rightarrow> PacketBuffer result" where
  "CountDownStart_Serialize buf enc = Ok (WriteUInt32 (WriteUInt8 buf RidCountDownStart) 0x01)"

definition CountDownStart_Deserialize :: "PacketBuffer \<Rightarrow> Encoding \<Rightarrow> PacketBuffer result" where
  "CountDownStart_Deserialize buf enc = GameStart_Deserialize buf enc"

definition CountDownEnd_Serialize :: "PacketBuffer \<Rightarrow> Encoding \<Rightarrow> PacketBuffer result" where
  "CountDownEnd_Serialize buf enc = Ok (WriteUInt32 (WriteUInt8 buf RidCountDownEnd) 0x01)"

definition CountDownEnd_Deserialize :: "PacketBuffer \<Rightarrow> Encoding \<Rightarrow> PacketBuffer result" where
  "CountDownEnd_Deserialize buf enc = GameStart_Deserialize buf enc"

subsection \<open>TimeSlot [0x1E] / [0x1F]\<close>

text \<open>
  \<^verbatim>\<open>w3gs.TimeSlot\<close> and \<^verbatim>\<open>w3gs.PlayerAction\<close> are declared outside the files modelled
  here; their fields are the ones the code reads and writes.
\<close>

record PlayerAction =
  PlayerID :: u8
  Data :: bytes

record TimeSlot =
  Fragment :: bool
  TimeIncrementMS :: u16
  Actions :: "PlayerAction list"

text \<open>The loop over \<^verbatim>\<open>rec.Actions\<close> in \<^verbatim>\<open>Serialize\<close>.\<close>

fun TimeSlot_writeActions :: "PacketBuffer \<Rightarrow> PlayerAction list \<Rightarrow> PacketBuffer" where
  "TimeSlot_writeActions buf [] = buf"
| "TimeSlot_writeActions buf (a # as) =
     (let b1 = WriteUInt8 buf (PlayerID a);
          b2 = WriteUInt16 b1 (of_nat (length (Data a)));
          b3 = WriteBlob b2 (Data a)
      in TimeSlot_writeActions b3 as)"

definition TimeSlot_Serialize ::
    "TimeSlot \<Rightarrow> PacketBuffer \<Rightarrow> Encoding \<Rightarrow> PacketBuffer result" where
  "TimeSlot_Serialize rec buf enc =
     (let b1 = (if Fragment rec \<or> (GameVersion enc > 0 \<and> GameVersion enc \<le> 2)
                then WriteUInt8 buf RidTimeSlot2
                else WriteUInt8 buf RidTimeSlot);
          b2 = WriteUInt16 b1 0;
          start = Size b2;
          b3 = WriteUInt16 b2 (TimeIncrementMS rec);
          b4 = TimeSlot_writeActions b3 (Actions rec)
      in WriteUInt16At b4 (start - 2) (word_of_int (Size b4 - start)))"

lemma rbind_cong [fundef_cong]:
  "m = m' \<Longrightarrow> (\<And>x. m' = Ok x \<Longrightarrow> f x = f' x) \<Longrightarrow> rbind m f = rbind m' f'"
  by (simp add: rbind_def split: result.splits)

text \<open>
  The loop \<^verbatim>\<open>for size >= 3\<close> of \<^verbatim>\<open>Deserialize\<close> with the check that follows it. \<open>sz\<close>
  (the source's \<^verbatim>\<open>size\<close>) is a Go \<^verbatim>\<open>int\<close> and goes negative when an action overruns. \<open>acts\<close> is
  \<^verbatim>\<open>rec.Actions[:i]\<close>: the slice is cut to length zero before the loop and grows by one
  element per iteration, whose \<^verbatim>\<open>Data\<close> is overwritten by the bytes read.

  This is the loop on a receiver whose \<^verbatim>\<open>Actions\<close> slice has no capacity, as in the zero value
  \<^verbatim>\<open>&TimeSlot{}\<close> that a factory constructor returns: every element is then a new one and
  its \<^verbatim>\<open>Data\<close> a new array, so the result is the list of the actions read. On a receiver
  that holds old actions the code reuses their elements and writes into the arrays of
  their \<^verbatim>\<open>Data\<close>; that call is \<open>TimeSlot_Deserialize_mem\<close> below, which agrees with this
  one on a receiver without old actions (lemma \<open>TimeSlot_Deserialize_mem_fresh\<close>).
\<close>

function TimeSlot_readActions ::
    "int \<Rightarrow> PacketBuffer \<Rightarrow> PlayerAction list \<Rightarrow> (PlayerAction list \<times> PacketBuffer) result" where
  "TimeSlot_readActions sz buf acts =
     (if sz \<ge> 3 then
        rbind (ReadUInt8 buf) (\<lambda>(pid, b1).
        rbind (ReadUInt16 b1) (\<lambda>(sub, b2).
          let subsize = uint sub in
          if sz < subsize then Err ErrBadFormat
          else rbind (ReadBlob b2 subsize) (\<lambda>(d, b3).
            TimeSlot_readActions (sz - (3 + subsize)) b3
              (acts @ [\<lparr>PlayerID = pid, Data = d\<rparr>]))))
      else if sz \<noteq> 0 then Err ErrBadFormat
      else Ok (acts, buf))"
  by pat_completeness auto
termination
proof (relation "measure (\<lambda>(sz, buf, acts). nat sz)")
  show "wf (measure (\<lambda>(sz, buf, acts). nat sz))"
    by simp
next
  fix sz :: int and buf :: PacketBuffer and acts :: "PlayerAction list"
    and x xa pid b1 xb sub b2 subsize xc d b3
  assume "3 \<le> sz" and "subsize = uint (sub :: u16)"
  moreover have "0 \<le> uint sub"
    by simp
  ultimately have "sz - (3 + subsize) < sz" and "0 < sz"
    by linarith+
  then show "((sz - (3 + subsize), b3, acts @ [\<lparr>PlayerID = pid, Data = d\<rparr>]), sz, buf, acts)
      \<in> measure (\<lambda>(sz, buf, acts). nat sz)"
    by simp
qed

declare TimeSlot_readActions.simps [simp del]

definition TimeSlot_Deserialize ::
    "TimeSlot \<Rightarrow> PacketBuffer \<Rightarrow> Encoding \<Rightarrow> (TimeSlot \<times> PacketBuffer) result" where
  "TimeSlot_Deserialize rec buf enc =
     (if Size buf < 5 then Err ErrShortBuffer
      else rbind (ReadUInt8 buf) (\<lambda>(tag, b1).
        let rec1 = rec\<lparr>Fragment :=
              (tag = RidTimeSlot2 \<and> (GameVersion enc = 0 \<or> GameVersion enc > 2))\<rparr> in
        rbind (ReadUInt16 b1) (\<lambda>(w, b2).
          let sz = uint w in
          if sz < 2 \<or> Size b2 < sz then Err ErrShortBuffer
          else rbind (ReadUInt16 b2) (\<lambda>(ti, b3).
            let rec2 = rec1\<lparr>TimeIncrementMS := ti\<rparr> in
            rbind (TimeSlot_readActions (sz - 2) b3 []) (\<lambda>(acts, b4).
              Ok (rec2\<lparr>Actions := acts\<rparr>, b4))))))"

subsection \<open>TimeSlot.Deserialize on a receiver that holds old actions\<close>

text \<open>
  On a receiver whose \<^verbatim>\<open>Actions\<close> slice has capacity, the loop of \<^verbatim>\<open>Deserialize\<close> reuses
  what the receiver holds: below the capacity it takes the old element
  \<^verbatim>\<open>rec.Actions[i]\<close>, and \<^verbatim>\<open>append(rec.Actions[i].Data[:0], buf.ReadBlob(subsize)...)\<close>
  copies the bytes read into the old array of that element when its capacity suffices.
  Old \<^verbatim>\<open>Data\<close> slices that share an array are then written through one another, so the
  model of this call keeps the arrays in an explicit memory. The buffer is read by value:
  its array is taken to be apart from the arrays that the receiver holds.
\<close>

text \<open>
  A slice of bytes is a window on an array: the array, the offset of the slice in it, its
  length and its capacity. \<^verbatim>\<open>nil\<close> has no array, and length and capacity 0.
\<close>

record ByteSlice =
  s_arr :: nat
  s_off :: nat
  s_len :: nat
  s_cap :: nat

definition nil_slice :: ByteSlice where
  "nil_slice = \<lparr>s_arr = 0, s_off = 0, s_len = 0, s_cap = 0\<rparr>"

text \<open>
  The memory: the bytes of every array, by address, and the first address not in use,
  which the next allocation takes.
\<close>

record Mem =
  arrays :: "nat \<Rightarrow> bytes"
  next_free :: nat

text \<open>The bytes a slice shows.\<close>

definition slice_bytes :: "Mem \<Rightarrow> ByteSlice \<Rightarrow> bytes" where
  "slice_bytes m s = take (s_len s) (drop (s_off s) (arrays m (s_arr s)))"

text \<open>
  \<^verbatim>\<open>append(d[:0], src...)\<close>: when \<open>src\<close> fits the capacity of \<open>d\<close>, its bytes are copied
  to the start of \<open>d\<close>, in the array of \<open>d\<close>; otherwise a new array is allocated for them
  (its capacity, at least the length, is the runtime's choice and nothing here reads it).
\<close>

definition append_reuse :: "Mem \<Rightarrow> ByteSlice \<Rightarrow> bytes \<Rightarrow> Mem \<times> ByteSlice" where
  "append_reuse m d src =
     (if length src \<le> s_cap d then
        (m\<lparr>arrays := (arrays m)(s_arr d :=
              take (s_off d) (arrays m (s_arr d)) @ src @
              drop (s_off d + length src) (arrays m (s_arr d)))\<rparr>,
         d\<lparr>s_len := length src\<rparr>)
      else
        (m\<lparr>arrays := (arrays m)(next_free m := src), next_free := Suc (next_free m)\<rparr>,
         \<lparr>s_arr = next_free m, s_off = 0, s_len = length src, s_cap = length src\<rparr>))"

text \<open>
  The loop. \<open>olds\<close> are the elements of the array of \<^verbatim>\<open>rec.Actions\<close> before the call, up to
  its capacity, each with its \<^verbatim>\<open>PlayerID\<close> and its \<^verbatim>\<open>Data\<close> slice; \<open>acts\<close> is
  \<^verbatim>\<open>rec.Actions[:i]\<close>. Below the capacity the loop takes the old element at \<open>i\<close>
  (\<^verbatim>\<open>rec.Actions[:i+1]\<close>); from the capacity on,
  \<^verbatim>\<open>append(rec.Actions, w3gs.PlayerAction{})\<close> moves the elements to a larger array whose
  other elements are zero, so the element at \<open>i\<close> has the \<^verbatim>\<open>nil\<close> slice for its old
  \<^verbatim>\<open>Data\<close>.
\<close>

function TimeSlot_readActions_mem ::
    "(u8 \<times> ByteSlice) list \<Rightarrow> int \<Rightarrow> PacketBuffer \<Rightarrow> Mem \<Rightarrow> (u8 \<times> ByteSlice) list \<Rightarrow>
     ((u8 \<times> ByteSlice) list \<times> Mem \<times> PacketBuffer) result" where
  "TimeSlot_readActions_mem olds sz buf m acts =
     (if sz \<ge> 3 then
        rbind (ReadUInt8 buf) (\<lambda>(pid, b1).
        rbind (ReadUInt16 b1) (\<lambda>(sub, b2).
          let subsize = uint sub in
          if sz < subsize then Err ErrBadFormat
          else rbind (ReadBlob b2 subsize) (\<lambda>(d, b3).
            let i = length acts;
                old = (if i < length olds then snd (olds ! i) else nil_slice)
            in case append_reuse m old d of
                 (m1, s) \<Rightarrow>
                   TimeSlot_readActions_mem olds (sz - (3 + subsize)) b3 m1
                     (acts @ [(pid, s)]))))
      else if sz \<noteq> 0 then Err ErrBadFormat
      else Ok (acts, m, buf))"
  by pat_completeness auto
termination
proof (relation "measure (\<lambda>(olds, sz, buf, m, acts). nat sz)")
  show "wf (measure (\<lambda>(olds, sz, buf, m, acts). nat sz))"
    by simp
next
  fix olds :: "(u8 \<times> ByteSlice) list" and sz :: int and buf :: PacketBuffer and m :: Mem
    and acts :: "(u8 \<times> ByteSlice) list"
    and x pid b1 xa sub b2 subsize xb d b3 i old xc m1 s
  assume "3 \<le> sz" and "subsize = uint (sub :: u16)"
  moreover have "0 \<le> uint sub"
    by simp
  ultimately have "sz - (3 + subsize) < sz" and "0 < sz"
    by linarith+
  then show "((olds, sz - (3 + subsize), b3, m1, acts @ [(pid, s)]), olds, sz, buf, m, acts)
      \<in> measure (\<lambda>(olds, sz, buf, m, acts). nat sz)"
    by simp
qed

declare TimeSlot_readActions_mem.simps [simp del]

text \<open>The actions as a caller reads them from the memory after the call.\<close>

definition actions_of :: "Mem \<Rightarrow> (u8 \<times> ByteSlice) list \<Rightarrow> PlayerAction list" where
  "actions_of m acts = map (\<lambda>(pid, s). \<lparr>PlayerID = pid, Data = slice_bytes m s\<rparr>) acts"

text \<open>
  \<^verbatim>\<open>TimeSlot.Deserialize\<close> on a receiver that holds the elements \<open>olds\<close> in the memory
  \<open>m\<close>; the result is the receiver as a caller reads it after the call.
\<close>

definition TimeSlot_Deserialize_mem ::
    "(u8 \<times> ByteSlice) list \<Rightarrow> Mem \<Rightarrow> TimeSlot \<Rightarrow> PacketBuffer \<Rightarrow> Encoding \<Rightarrow>
     (TimeSlot \<times> PacketBuffer) result" where
  "TimeSlot_Deserialize_mem olds m rec buf enc =
     (if Size buf < 5 then Err ErrShortBuffer
      else rbind (ReadUInt8 buf) (\<lambda>(tag, b1).
        let rec1 = rec\<lparr>Fragment :=
              (tag = RidTimeSlot2 \<and> (GameVersion enc = 0 \<or> GameVersion enc > 2))\<rparr> in
        rbind (ReadUInt16 b1) (\<lambda>(w, b2).
          let sz = uint w in
          if sz < 2 \<or> Size b2 < sz then Err ErrShortBuffer
          else rbind (ReadUInt16 b2) (\<lambda>(ti, b3).
            let rec2 = rec1\<lparr>TimeIncrementMS := ti\<rparr> in
            rbind (TimeSlot_readActions_mem olds (sz - 2) b3 m []) (\<lambda>(acts, m1, b4).
              Ok (rec2\<lparr>Actions := actions_of m1 acts\<rparr>, b4))))))"

subsection \<open>ChatMessage [0x20]\<close>

text \<open>
  \<^verbatim>\<open>w3gs.Message\<close> is declared outside the files modelled here; its fields are the ones the
  code reads and writes.
\<close>

record ChatMessage =
  RecipientIDs :: "u8 list"
  SenderID :: u8
  Type :: u8
  Scope :: u32
  NewVal :: u8
  Content :: bytes

definition ChatMessage_Serialize ::
    "ChatMessage \<Rightarrow> PacketBuffer \<Rightarrow> Encoding \<Rightarrow> PacketBuffer result" where
  "ChatMessage_Serialize rec buf enc =
     (let b1 = WriteUInt8 buf RidChatMessage;
          b2 = WriteUInt8 b1 (SenderID rec);
          b3 = (if Type rec = MsgChatExtra
                  then WriteUInt16 b2 (of_nat (6 + length (Content rec)))
                else if Type rec = MsgChat
                  then WriteUInt16 b2 (of_nat (2 + length (Content rec)))
                else WriteUInt16 b2 2);
          b4 = WriteUInt8 b3 (Type rec)
      in Ok (if Type rec = MsgChatExtra
               then WriteCString (WriteUInt32 b4 (Scope rec)) (Content rec)
             else if Type rec = MsgChat
               then WriteCString b4 (Content rec)
             else WriteUInt8 b4 (NewVal rec)))"

text \<open>
  The loop \<^verbatim>\<open>for size > 0\<close> that parses the extra strings, with the check that follows
  it. The parameter \<open>np\<close> stands for the test
  \<^verbatim>\<open>strings.IndexFunc(buf, func(r rune) bool { return !unicode.IsPrint(r) }) != -1\<close> of
  the Go standard library: the string holds a rune that is not printable.
\<close>

function ChatMessage_extra ::
    "(bytes \<Rightarrow> bool) \<Rightarrow> int \<Rightarrow> PacketBuffer \<Rightarrow> bytes \<Rightarrow> (bytes \<times> PacketBuffer) result" where
  "ChatMessage_extra np sz buf content =
     (if sz > 0 then
        (case ReadCString buf of
           (s, Some err, b1) \<Rightarrow> Err err
         | (s, None, b1) \<Rightarrow>
             if np s then Err ErrBadFormat
             else ChatMessage_extra np (sz - (int (length s) + 1)) b1 (content @ s))
      else if sz \<noteq> 0 then Err ErrBadFormat
      else Ok (content, buf))"
  by pat_completeness auto
termination
  by (relation "measure (\<lambda>(np, sz, buf, content). nat sz)") auto

declare ChatMessage_extra.simps [simp del]

text \<open>The body of \<^verbatim>\<open>case w3gs.MsgChat\<close>, which \<^verbatim>\<open>case w3gs.MsgChatExtra\<close> falls through to.\<close>

definition ChatMessage_content ::
    "(bytes \<Rightarrow> bool) \<Rightarrow> ChatMessage \<Rightarrow> int \<Rightarrow> PacketBuffer \<Rightarrow>
     (ChatMessage \<times> PacketBuffer) result" where
  "ChatMessage_content np rec sz buf =
     (case ReadCString buf of
        (s, Some err, b1) \<Rightarrow> Err err
      | (s, None, b1) \<Rightarrow>
          rbind (ChatMessage_extra np (sz - (2 + int (length s))) b1 s) (\<lambda>(c, b2).
            Ok (rec\<lparr>Content := c\<rparr>, b2)))"

definition ChatMessage_Deserialize ::
    "(bytes \<Rightarrow> bool) \<Rightarrow> ChatMessage \<Rightarrow> PacketBuffer \<Rightarrow> Encoding \<Rightarrow>
     (ChatMessage \<times> PacketBuffer) result" where
  "ChatMessage_Deserialize np rec buf enc =
     (if Size buf < 3 then Err ErrShortBuffer
      else rbind (Skip buf 1) (\<lambda>b1.
        rbind (ReadUInt8 b1) (\<lambda>(sid, b2).
          let rec1 = rec\<lparr>RecipientIDs := [], SenderID := sid, Scope := ScopeAll,
                         NewVal := 0, Content := []\<rparr> in
          rbind (ReadUInt16 b2) (\<lambda>(w, b3).
            let sz = uint w in
            if sz < 2 \<or> Size b3 < sz then Err ErrShortBuffer
            else rbind (ReadUInt8 b3) (\<lambda>(ty, b4).
              let rec2 = rec1\<lparr>Type := ty\<rparr> in
              if ty = MsgChatExtra then
                (if sz < 6 then Err ErrBadFormat
                 else rbind (ReadUInt32 b4) (\<lambda>(sc, b5).
                   ChatMessage_content np (rec2\<lparr>Scope := sc\<rparr>) (sz - 4) b5))
              else if ty = MsgChat then ChatMessage_content np rec2 sz b4
              else if sz \<noteq> 2 then Err ErrBadFormat
              else rbind (ReadUInt8 b4) (\<lambda>(nv, b5). Ok (rec2\<lparr>NewVal := nv\<rparr>, b5)))))))"

subsection \<open>TimeSlotAck [0x22]\<close>

record TimeSlotAck =
  Checksum :: bytes

definition TimeSlotAck_Serialize ::
    "TimeSlotAck \<Rightarrow> PacketBuffer \<Rightarrow> Encoding \<Rightarrow> PacketBuffer result" where
  "TimeSlotAck_Serialize rec buf enc =
     (let b1 = (if GameVersion enc = 0 \<or> GameVersion enc > 2
                then WriteUInt8 buf RidTimeSlotAck
                else WriteUInt8 buf RidChatMessage);
          b2 = WriteUInt8 b1 (of_nat (length (Checksum rec)))
      in Ok (WriteBlob b2 (Checksum rec)))"

text \<open>
  \<^verbatim>\<open>append(rec.Checksum[:0], buf.ReadBlob(size)...)\<close> copies the bytes read into the
  receiver's old array when it has the capacity and into a new array otherwise; the
  checksum that the receiver then shows is the bytes read in both cases.
\<close>

definition TimeSlotAck_Deserialize ::
    "TimeSlotAck \<Rightarrow> PacketBuffer \<Rightarrow> Encoding \<Rightarrow> (TimeSlotAck \<times> PacketBuffer) result" where
  "TimeSlotAck_Deserialize rec buf enc =
     (if Size buf < 2 then Err ErrShortBuffer
      else rbind (Skip buf 1) (\<lambda>b1.
        rbind (ReadUInt8 b1) (\<lambda>(w, b2).
          let sz = uint w in
          if Size b2 < sz then Err ErrShortBuffer
          else rbind (ReadBlob b2 sz) (\<lambda>(c, b3). Ok (rec\<lparr>Checksum := c\<rparr>, b3)))))"

subsection \<open>EndTimer [0x2F]\<close>

record EndTimer =
  GameOver :: bool
  CountDownSec :: u32

definition EndTimer_Serialize ::
    "EndTimer \<Rightarrow> PacketBuffer \<Rightarrow> Encoding \<Rightarrow> PacketBuffer result" where
  "EndTimer_Serialize rec buf enc =
     (let b1 = WriteUInt8 buf RidEndTimer;
          b2 = WriteBool32 b1 (GameOver rec)
      in Ok (WriteUInt32 b2 (CountDownSec rec)))"

definition EndTimer_Deserialize ::
    "EndTimer \<Rightarrow> PacketBuffer \<Rightarrow> Encoding \<Rightarrow> (EndTimer \<times> PacketBuffer) result" where
  "EndTimer_Deserialize rec buf enc =
     (if Size buf < 9 then Err ErrShortBuffer
      else rbind (Skip buf 1) (\<lambda>b1.
        rbind (ReadBool32 b1) (\<lambda>(g, b2).
        rbind (ReadUInt32 b2) (\<lambda>(c, b3).
          Ok (rec\<lparr>GameOver := g, CountDownSec := c\<rparr>, b3)))))"

subsection \<open>The Record interface\<close>

text \<open>
  \<^verbatim>\<open>Record\<close> is the interface with the methods \<^verbatim>\<open>Serialize\<close> and \<^verbatim>\<open>Deserialize\<close>; a call
  dispatches on the dynamic type of the receiver. The variants here are the record types
  whose two methods are modelled here in full (\<^verbatim>\<open>GameInfo\<close>, \<^verbatim>\<open>SlotInfo\<close>,
  \<^verbatim>\<open>Desync\<close> and \<^verbatim>\<open>PlayerExtra\<close> delegate to codecs of package \<^verbatim>\<open>w3gs\<close>).
\<close>

datatype Record =
    RPlayerInfo PlayerInfo
  | RPlayerLeft PlayerLeft
  | RCountDownStart
  | RCountDownEnd
  | RGameStart
  | RTimeSlot TimeSlot
  | RChatMessage ChatMessage
  | RTimeSlotAck TimeSlotAck
  | REndTimer EndTimer

fun kind_of :: "Record \<Rightarrow> RecordKind" where
  "kind_of (RPlayerInfo r) = KPlayerInfo"
| "kind_of (RPlayerLeft r) = KPlayerLeft"
| "kind_of RCountDownStart = KCountDownStart"
| "kind_of RCountDownEnd = KCountDownEnd"
| "kind_of RGameStart = KGameStart"
| "kind_of (RTimeSlot r) = KTimeSlot"
| "kind_of (RChatMessage r) = KChatMessage"
| "kind_of (RTimeSlotAck r) = KTimeSlotAck"
| "kind_of (REndTimer r) = KEndTimer"

text \<open>
  The zero value of the type of a record, \<^verbatim>\<open>&T{}\<close>: what a factory constructor returns
  and \<^verbatim>\<open>Deserialize\<close> is called on when a record is decoded.
\<close>

fun zero_of :: "Record \<Rightarrow> Record" where
  "zero_of (RPlayerInfo r) = RPlayerInfo \<lparr>ID = 0, Name = [], Race = 0, JoinCounter = 0\<rparr>"
| "zero_of (RPlayerLeft r) =
     RPlayerLeft \<lparr>Local = False, PlayerLeft.PlayerID = 0, Reason = 0, Counter = 0\<rparr>"
| "zero_of RCountDownStart = RCountDownStart"
| "zero_of RCountDownEnd = RCountDownEnd"
| "zero_of RGameStart = RGameStart"
| "zero_of (RTimeSlot r) = RTimeSlot \<lparr>Fragment = False, TimeIncrementMS = 0, Actions = []\<rparr>"
| "zero_of (RChatMessage r) =
     RChatMessage \<lparr>RecipientIDs = [], SenderID = 0, Type = 0, Scope = 0, NewVal = 0,
                   Content = []\<rparr>"
| "zero_of (RTimeSlotAck r) = RTimeSlotAck \<lparr>Checksum = []\<rparr>"
| "zero_of (REndTimer r) = REndTimer \<lparr>GameOver = False, CountDownSec = 0\<rparr>"

fun Serialize :: "Record \<Rightarrow> PacketBuffer \<Rightarrow> Encoding \<Rightarrow> PacketBuffer result" where
  "Serialize (RPlayerInfo r) buf enc = PlayerInfo_Serialize r buf enc"
| "Serialize (RPlayerLeft r) buf enc = PlayerLeft_Serialize r buf enc"
| "Serialize RCountDownStart buf enc = CountDownStart_Serialize buf enc"
| "Serialize RCountDownEnd buf enc = CountDownEnd_Serialize buf enc"
| "Serialize RGameStart buf enc = GameStart_Serialize buf enc"
| "Serialize (RTimeSlot r) buf enc = TimeSlot_Serialize r buf enc"
| "Serialize (RChatMessage r) buf enc = ChatMessage_Serialize r buf enc"
| "Serialize (RTimeSlotAck r) buf enc = TimeSlotAck_Serialize r buf enc"
| "Serialize (REndTimer r) buf enc = EndTimer_Serialize r buf enc"

fun Deserialize ::
    "(bytes \<Rightarrow> bool) \<Rightarrow> Record \<Rightarrow> PacketBuffer \<Rightarrow> Encoding \<Rightarrow> (Record \<times> PacketBuffer) result" where
  "Deserialize np (RPlayerInfo r) buf enc =
     rbind (PlayerInfo_Deserialize r buf enc) (\<lambda>(r', b). Ok (RPlayerInfo r', b))"
| "Deserialize np (RPlayerLeft r) buf enc =
     rbind (PlayerLeft_Deserialize r buf enc) (\<lambda>(r', b). Ok (RPlayerLeft r', b))"
| "Deserialize np RCountDownStart buf enc =
     rbind (CountDownStart_Deserialize buf enc) (\<lambda>b. Ok (RCountDownStart, b))"
| "Deserialize np RCountDownEnd buf enc =
     rbind (CountDownEnd_Deserialize buf enc) (\<lambda>b. Ok (RCountDownEnd, b))"
| "Deserialize np RGameStart buf enc =
     rbind (GameStart_Deserialize buf enc) (\<lambda>b. Ok (RGameStart, b))"
| "Deserialize np (RTimeSlot r) buf enc =
     rbind (TimeSlot_Deserialize r buf enc) (\<lambda>(r', b). Ok (RTimeSlot r', b))"
| "Deserialize np (RChatMessage r) buf enc =
     rbind (ChatMessage_Deserialize np r buf enc) (\<lambda>(r', b). Ok (RChatMessage r', b))"
| "Deserialize np (RTimeSlotAck r) buf enc =
     rbind (TimeSlotAck_Deserialize r buf enc) (\<lambda>(r', b). Ok (RTimeSlotAck r', b))"
| "Deserialize np (REndTimer r) buf enc =
     rbind (EndTimer_Deserialize r buf enc) (\<lambda>(r', b). Ok (REndTimer r', b))"

text \<open>
  The values that the wire format can carry under an encoding: strings without a zero
  byte, lengths that fit their length fields, no \<^verbatim>\<open>Fragment\<close> flag under game versions
  1 and 2, and in a \<^verbatim>\<open>ChatMessage\<close> only the fields that its type writes (the others at
  the values \<^verbatim>\<open>Deserialize\<close> resets them to).
\<close>

fun canonical :: "Encoding \<Rightarrow> Record \<Rightarrow> bool" where
  "canonical enc (RPlayerInfo r) = (0 \<notin> set (Name r))"
| "canonical enc (RTimeSlot r) =
     ((Fragment r \<longrightarrow> GameVersion enc = 0 \<or> GameVersion enc > 2) \<and>
      2 + sum_list (map (\<lambda>a. 3 + length (Data a)) (Actions r)) < 65536)"
| "canonical enc (RChatMessage r) =
     (RecipientIDs r = [] \<and>
      (if Type r = MsgChatExtra then
         NewVal r = 0 \<and> 0 \<notin> set (Content r) \<and> 6 + length (Content r) < 65536
       else if Type r = MsgChat then
         Scope r = ScopeAll \<and> NewVal r = 0 \<and> 0 \<notin> set (Content r) \<and>
         2 + length (Content r) < 65536
       else Scope r = ScopeAll \<and> Content r = []))"
| "canonical enc (RTimeSlotAck r) = (length (Checksum r) < 256)"
| "canonical enc r = True"

section \<open>Facts about the model\<close>

subsection \<open>Null-terminated strings\<close>

lemma IndexByte_absent: "c \<notin> set b \<Longrightarrow> IndexByte b c = - 1"
  by (induction b) auto

lemma IndexByte_nonneg: "c \<in> set b \<Longrightarrow> 0 \<le> IndexByte b c"
  by (induction b) (auto simp: Let_def)

lemma IndexByte_present:
  "c \<in> set b \<Longrightarrow> IndexByte b c = int (length (takeWhile (\<lambda>x. x \<noteq> c) b))"
proof (induction b)
  case Nil
  then show ?case by simp
next
  case (Cons x xs)
  show ?case
  proof (cases "x = c")
    case True
    then show ?thesis by simp
  next
    case False
    with Cons.prems have "c \<in> set xs" by simp
    with Cons.IH have "IndexByte xs c = int (length (takeWhile (\<lambda>x. x \<noteq> c) xs))" by simp
    with False show ?thesis by (simp add: Let_def)
  qed
qed

lemma IndexByte_append_terminated:
  "c \<notin> set s \<Longrightarrow> IndexByte (s @ c # rest) c = int (length s)"
  by (induction s) (auto simp: Let_def)

lemma ReadString_terminated:
  "0 \<notin> set s \<Longrightarrow> ReadString (s @ 0 # rest) = (s, None, rest)"
  by (simp add: ReadString_def IndexByte_append_terminated Let_def nat_add_distrib)

lemma ReadString_unterminated:
  "0 \<notin> set b \<Longrightarrow> ReadString b = ([], Some ErrNoStringTerminatorFound, [])"
  by (simp add: ReadString_def IndexByte_absent Let_def)

subsection \<open>Words, sizes and reads of known bytes\<close>

lemma u16_bytes:
  "push_bit 8 (ucast (ucast (drop_bit 8 v) :: u8)) OR ucast (ucast v :: u8) = (v :: u16)"
  by (rule bit_word_eqI) (auto simp: bit_simps)

lemma u32_bytes:
  "push_bit 24 (ucast (ucast (drop_bit 24 v) :: u8))
     OR push_bit 16 (ucast (ucast (drop_bit 16 v) :: u8))
     OR push_bit 8 (ucast (ucast (drop_bit 8 v) :: u8))
     OR ucast (ucast v :: u8) = (v :: u32)"
proof (rule bit_word_eqI)
  fix n
  assume "n < LENGTH(32)"
  then show "bit (push_bit 24 (ucast (ucast (drop_bit 24 v) :: u8))
     OR push_bit 16 (ucast (ucast (drop_bit 16 v) :: u8))
     OR push_bit 8 (ucast (ucast (drop_bit 8 v) :: u8))
     OR (ucast (ucast v :: u8) :: u32)) n = bit v n"
    by (cases "n < 8"; cases "n < 16"; cases "n < 24") (auto simp: bit_simps)
qed

lemma Size_simps:
  "Size [] = 0" "Size (x # xs) = 1 + Size xs" "Size (xs @ ys) = Size xs + Size ys"
  by (simp_all add: Size_def)

lemma rbind_simps:
  "rbind Panic f = Panic" "rbind (Err e) f = Err e" "rbind (Ok x) f = f x"
  by (simp_all add: rbind_def)

lemma ReadUInt8_Cons: "ReadUInt8 (x # rest) = Ok (x, rest)"
  by (simp add: ReadUInt8_def Size_def)

lemma ReadUInt16_Cons:
  "ReadUInt16 (lo # hi # rest) = Ok (push_bit 8 (ucast hi) OR ucast lo, rest)"
  by (simp add: ReadUInt16_def Size_def)

lemma ReadUInt32_Cons:
  "ReadUInt32 (b0 # b1 # b2 # b3 # rest) =
     Ok (push_bit 24 (ucast b3) OR push_bit 16 (ucast b2) OR push_bit 8 (ucast b1)
           OR ucast b0, rest)"
  by (simp add: ReadUInt32_def Size_def)

lemma Skip_1_Cons: "Skip (x # rest) 1 = Ok rest"
  by (simp add: Skip_def Size_def)

lemma gv_early: "(\<not> (v = 0 \<or> v > 2)) = (1 \<le> v \<and> v \<le> (2 :: u32))"
proof -
  have "(v = 0) = (unat v = 0)"
    by (simp add: unsigned_eq_0_iff)
  then show ?thesis
    by (auto simp: word_le_nat_alt word_less_nat_alt)
qed

lemma gv_early_pos: "(v > 0 \<and> v \<le> 2) = (1 \<le> v \<and> v \<le> (2 :: u32))"
proof -
  have "(v = 0) = (unat v = 0)"
    by (simp add: unsigned_eq_0_iff)
  then show ?thesis
    by (auto simp: word_le_nat_alt word_less_nat_alt)
qed

lemmas Rid_defs =
  RidGameInfo_def RidPlayerInfo_def RidPlayerLeft_def RidSlotInfo_def RidCountDownStart_def
  RidCountDownEnd_def RidGameStart_def RidTimeSlot_def RidTimeSlot2_def RidChatMessage_def
  RidTimeSlotAck_def RidDesync_def RidEndTimer_def RidPlayerExtra_def

lemmas Write_defs =
  WriteBlob_def WriteUInt8_def WriteUInt16_def WriteUInt32_def WriteString_def
  WriteCString_def WriteBool32_def

subsection \<open>TimeSlot: the bytes written and the loop\<close>

lemma TimeSlot_writeActions_append:
  "TimeSlot_writeActions buf as = buf @ TimeSlot_writeActions [] as"
proof (induction as arbitrary: buf)
  case Nil
  then show ?case by simp
next
  case (Cons a as)
  show ?case
    using Cons.IH [of "buf @ PlayerID a # WriteUInt16 [] (of_nat (length (Data a))) @ Data a"]
      Cons.IH [of "PlayerID a # WriteUInt16 [] (of_nat (length (Data a))) @ Data a"]
    by (simp add: Write_defs)
qed

lemma WriteUInt16At_placeholder:
  "WriteUInt16At (buf @ t # x # y # rest) (Size (buf @ [t, x, y]) - 2) v =
     Ok (buf @ t # ucast v # ucast (drop_bit 8 v) # rest)"
proof -
  have p: "nat (Size (buf @ [t, x, y]) - 2) = Suc (length buf)"
    by (simp add: Size_def)
  have "(buf @ t # x # y # rest)[Suc (Suc (length buf)) := ucast (drop_bit 8 v),
          Suc (length buf) := ucast v] = buf @ t # ucast v # ucast (drop_bit 8 v) # rest"
    by (simp add: list_update_append)
  then show ?thesis
    by (simp add: WriteUInt16At_def p) (simp add: Size_def)
qed

lemma TimeSlot_readActions_end:
  "sz < 3 \<Longrightarrow>
     TimeSlot_readActions sz buf acts = (if sz \<noteq> 0 then Err ErrBadFormat else Ok (acts, buf))"
  by (subst TimeSlot_readActions.simps) simp

lemma TimeSlot_readActions_step:
  "3 \<le> sz \<Longrightarrow>
     TimeSlot_readActions sz (pid # lo # hi # rest) acts =
       (let subsize = uint (push_bit 8 (ucast hi) OR ucast lo :: u16) in
        if sz < subsize then Err ErrBadFormat
        else rbind (ReadBlob rest subsize) (\<lambda>(d, b3).
          TimeSlot_readActions (sz - (3 + subsize)) b3
            (acts @ [\<lparr>PlayerID = pid, Data = d\<rparr>])))"
  by (subst TimeSlot_readActions.simps) (simp add: ReadUInt8_Cons ReadUInt16_Cons rbind_simps)

text \<open>The bytes \<^verbatim>\<open>TimeSlot.Serialize\<close> appends: tag, patched length, increment, actions.\<close>

lemma TimeSlot_Serialize_bytes:
  "TimeSlot_Serialize rec buf enc =
     Ok (buf @ (if Fragment rec \<or> (GameVersion enc > 0 \<and> GameVersion enc \<le> 2)
                then RidTimeSlot2 else RidTimeSlot)
             # WriteUInt16 []
                 (word_of_int (2 + Size (TimeSlot_writeActions [] (Actions rec))))
             @ WriteUInt16 [] (TimeIncrementMS rec)
             @ TimeSlot_writeActions [] (Actions rec))"
proof -
  define t where "t = (if Fragment rec \<or> (GameVersion enc > 0 \<and> GameVersion enc \<le> 2)
                then RidTimeSlot2 else RidTimeSlot)"
  define A where "A = TimeSlot_writeActions [] (Actions rec)"
  define ti where "ti = WriteUInt16 [] (TimeIncrementMS rec)"
  have b1: "(if Fragment rec \<or> (GameVersion enc > 0 \<and> GameVersion enc \<le> 2)
                then WriteUInt8 buf RidTimeSlot2 else WriteUInt8 buf RidTimeSlot) = buf @ [t]"
    by (simp add: t_def WriteUInt8_def)
  have b4: "TimeSlot_writeActions (WriteUInt16 (WriteUInt16 (buf @ [t]) 0) (TimeIncrementMS rec))
              (Actions rec) = buf @ t # 0 # 0 # (ti @ A)"
    using TimeSlot_writeActions_append
      [of "WriteUInt16 (WriteUInt16 (buf @ [t]) 0) (TimeIncrementMS rec)" "Actions rec"]
    by (simp add: A_def ti_def WriteUInt16_def)
  have st: "Size (WriteUInt16 (buf @ [t]) 0) = Size (buf @ [t, 0, 0])"
    by (simp add: WriteUInt16_def Size_def)
  have len: "Size (buf @ t # 0 # 0 # (ti @ A)) - Size (buf @ [t, 0, 0]) = 2 + Size A"
    by (simp add: Size_def ti_def WriteUInt16_def)
  have "TimeSlot_Serialize rec buf enc =
      WriteUInt16At (buf @ t # 0 # 0 # (ti @ A)) (Size (buf @ [t, 0, 0]) - 2)
        (word_of_int (2 + Size A))"
    unfolding TimeSlot_Serialize_def Let_def b1 b4 st len ..
  also have "\<dots> = Ok (buf @ t # ucast (word_of_int (2 + Size A) :: u16)
      # ucast (drop_bit 8 (word_of_int (2 + Size A) :: u16)) # (ti @ A))"
    by (rule WriteUInt16At_placeholder)
  finally show ?thesis
    by (simp add: t_def A_def ti_def WriteUInt16_def)
qed

subsection \<open>ChatMessage: the loop over the extra strings\<close>

lemma ReadCString_terminated:
  "0 \<notin> set s \<Longrightarrow> ReadCString (s @ 0 # rest) = (s, None, rest)"
  by (simp add: ReadCString_def ReadString_terminated)

lemma ChatMessage_extra_end:
  "sz \<le> 0 \<Longrightarrow>
     ChatMessage_extra np sz buf c = (if sz \<noteq> 0 then Err ErrBadFormat else Ok (c, buf))"
  by (subst ChatMessage_extra.simps) simp

lemma ChatMessage_extra_step:
  "0 < sz \<Longrightarrow> 0 \<notin> set s \<Longrightarrow>
     ChatMessage_extra np sz (s @ 0 # rest) c =
       (if np s then Err ErrBadFormat
        else ChatMessage_extra np (sz - (int (length s) + 1)) rest (c @ s))"
  by (subst ChatMessage_extra.simps) (simp add: ReadCString_terminated)

lemma ChatMessage_extra_printable:
  "\<forall>s \<in> set ss. 0 \<notin> set s \<and> \<not> np s \<Longrightarrow>
     ChatMessage_extra np (int (length (concat (map (\<lambda>s. s @ [0]) ss))))
       (concat (map (\<lambda>s. s @ [0]) ss) @ rest) c = Ok (c @ concat ss, rest)"
proof (induction ss arbitrary: c)
  case Nil
  then show ?case by (simp add: ChatMessage_extra_end)
next
  case (Cons s ss)
  from Cons.prems have s: "0 \<notin> set s" "\<not> np s" and ss: "\<forall>s \<in> set ss. 0 \<notin> set s \<and> \<not> np s"
    by simp_all
  have "ChatMessage_extra np (int (length (concat (map (\<lambda>s. s @ [0]) (s # ss)))))
       (s @ 0 # (concat (map (\<lambda>s. s @ [0]) ss) @ rest)) c =
     ChatMessage_extra np (int (length (concat (map (\<lambda>s. s @ [0]) ss))))
       (concat (map (\<lambda>s. s @ [0]) ss) @ rest) (c @ s)"
    using s by (subst ChatMessage_extra_step) simp_all
  with Cons.IH [OF ss, of "c @ s"] show ?case
    by simp
qed

lemma ChatMessage_extra_nonprintable:
  "\<forall>s \<in> set pre. 0 \<notin> set s \<Longrightarrow> 0 \<notin> set bad \<Longrightarrow> np bad \<Longrightarrow>
   int (length (concat (map (\<lambda>s. s @ [0]) pre))) < sz \<Longrightarrow>
     ChatMessage_extra np sz (concat (map (\<lambda>s. s @ [0]) pre) @ bad @ 0 # rest) c =
       Err ErrBadFormat"
proof (induction pre arbitrary: c sz)
  case Nil
  then show ?case by (simp add: ChatMessage_extra_step)
next
  case (Cons s pre)
  from Cons.prems have s: "0 \<notin> set s" and pre: "\<forall>s \<in> set pre. 0 \<notin> set s"
    and sz: "0 < sz" "int (length (concat (map (\<lambda>s. s @ [0]) pre))) < sz - (int (length s) + 1)"
    by simp_all
  have "ChatMessage_extra np sz
       (s @ 0 # (concat (map (\<lambda>s. s @ [0]) pre) @ bad @ 0 # rest)) c =
     (if np s then Err ErrBadFormat
      else ChatMessage_extra np (sz - (int (length s) + 1))
       (concat (map (\<lambda>s. s @ [0]) pre) @ bad @ 0 # rest) (c @ s))"
    using s sz by (subst ChatMessage_extra_step) simp_all
  with Cons.IH [OF pre Cons.prems(2,3) sz(2), of "c @ s"] show ?case
    by simp
qed

lemma MsgChat_neq [simp]: "MsgChat \<noteq> MsgChatExtra" "MsgChatExtra \<noteq> MsgChat"
  by (simp_all add: MsgChat_def MsgChatExtra_def)

lemma ChatMessage_Deserialize_chat:
  assumes "0 \<notin> set s0" and "2 \<le> uint w"
    and "uint w \<le> int (length (MsgChat # s0 @ 0 # tail))"
  shows "ChatMessage_Deserialize np r0
      (tag # sid # WriteUInt16 [] w @ MsgChat # s0 @ 0 # tail) enc =
     rbind (ChatMessage_extra np (uint w - (2 + int (length s0))) tail s0) (\<lambda>(c, b2).
       Ok (r0\<lparr>RecipientIDs := [], SenderID := sid, Scope := ScopeAll, NewVal := 0,
              Type := MsgChat, Content := c\<rparr>, b2))"
  using assms
  by (simp add: ChatMessage_Deserialize_def WriteUInt16_def Size_simps Skip_1_Cons
      ReadUInt8_Cons ReadUInt16_Cons u16_bytes rbind_simps ChatMessage_content_def
      ReadCString_terminated Let_def Size_def)

lemma ChatMessage_Deserialize_chat_extra:
  assumes "0 \<notin> set s0" and "6 \<le> uint w"
    and "uint w \<le> int (length (WriteUInt32 [MsgChatExtra] sc @ s0 @ 0 # tail))"
  shows "ChatMessage_Deserialize np r0
      (tag # sid # WriteUInt16 [] w @ WriteUInt32 [MsgChatExtra] sc @ s0 @ 0 # tail) enc =
     rbind (ChatMessage_extra np (uint w - 4 - (2 + int (length s0))) tail s0) (\<lambda>(c, b2).
       Ok (r0\<lparr>RecipientIDs := [], SenderID := sid, NewVal := 0,
              Type := MsgChatExtra, Scope := sc, Content := c\<rparr>, b2))"
  using assms
  by (simp add: ChatMessage_Deserialize_def WriteUInt16_def WriteUInt32_def Size_simps
      Skip_1_Cons ReadUInt8_Cons ReadUInt16_Cons ReadUInt32_Cons u16_bytes u32_bytes
      rbind_simps ChatMessage_content_def ReadCString_terminated Let_def Size_def)


subsection \<open>Round trips, record by record\<close>

lemma PlayerInfo_roundtrip:
  assumes "0 \<notin> set (Name r)"
  shows "rbind (PlayerInfo_Serialize r [] enc) (\<lambda>b. PlayerInfo_Deserialize r0 b enc) = Ok (r, [])"
proof (cases "JoinCounter r = 0 \<and> Race r = 0")
  case True
  then show ?thesis
    using assms
    by (cases r; cases r0)
      (simp add: PlayerInfo_Serialize_def PlayerInfo_SerializeContent_def
        PlayerInfo_Deserialize_def PlayerInfo_DeserializeContent_def Write_defs rbind_simps
        Size_def Skip_def ReadUInt8_Cons ReadCString_terminated Let_def)
next
  case False
  then show ?thesis
    using assms
    by (cases r; cases r0)
      (simp add: PlayerInfo_Serialize_def PlayerInfo_SerializeContent_def
        PlayerInfo_Deserialize_def PlayerInfo_DeserializeContent_def Write_defs rbind_simps
        Size_def Skip_def ReadUInt8_Cons ReadUInt32_Cons u32_bytes ReadCString_terminated Let_def)
qed

lemma PlayerLeft_roundtrip:
  "rbind (PlayerLeft_Serialize r [] enc) (\<lambda>b. PlayerLeft_Deserialize r0 b enc) = Ok (r, [])"
  by (cases r; cases r0)
    (simp add: PlayerLeft_Serialize_def PlayerLeft_Deserialize_def Write_defs rbind_simps
      Size_def Skip_def ReadUInt8_Cons ReadUInt32_Cons u32_bytes Let_def)

lemma GameStart_roundtrip:
  "rbind (GameStart_Serialize [] enc) (\<lambda>b. GameStart_Deserialize b enc) = Ok []"
  "rbind (CountDownStart_Serialize [] enc) (\<lambda>b. CountDownStart_Deserialize b enc) = Ok []"
  "rbind (CountDownEnd_Serialize [] enc) (\<lambda>b. CountDownEnd_Deserialize b enc) = Ok []"
  by (simp_all add: GameStart_Serialize_def GameStart_Deserialize_def
      CountDownStart_Serialize_def CountDownStart_Deserialize_def
      CountDownEnd_Serialize_def CountDownEnd_Deserialize_def Write_defs rbind_simps
      Size_def Skip_def ReadUInt32_Cons)

lemma EndTimer_roundtrip:
  "rbind (EndTimer_Serialize r [] enc) (\<lambda>b. EndTimer_Deserialize r0 b enc) = Ok (r, [])"
  by (cases r; cases r0)
    (simp add: EndTimer_Serialize_def EndTimer_Deserialize_def Write_defs rbind_simps
      ReadBool32_def Size_def Skip_def ReadUInt32_Cons u32_bytes Let_def)

lemma TimeSlotAck_roundtrip:
  assumes "length (Checksum r) < 256"
  shows "rbind (TimeSlotAck_Serialize r [] enc)
           (\<lambda>b. TimeSlotAck_Deserialize \<lparr>Checksum = []\<rparr> b enc) = Ok (r, [])"
proof -
  have u: "uint (of_nat (length (Checksum r)) :: u8) = int (length (Checksum r))"
    using assms by (simp add: unsigned_of_nat take_bit_nat_eq_self)
  show ?thesis
    by (cases r)
      (use u in \<open>simp add: TimeSlotAck_Serialize_def TimeSlotAck_Deserialize_def Write_defs rbind_simps
        Size_def Skip_def ReadUInt8_Cons ReadBlob_def Let_def\<close>)
qed

lemma ReadBlob_exact: "ReadBlob (d @ rest) (int (length d)) = Ok (d, rest)"
  by (simp add: ReadBlob_def Size_def)

lemma uint_of_nat_u16: "n < 65536 \<Longrightarrow> uint (of_nat n :: u16) = int n"
  by (simp add: unsigned_of_nat take_bit_nat_eq_self)

lemma length_TimeSlot_writeActions:
  "length (TimeSlot_writeActions [] as) = sum_list (map (\<lambda>a. 3 + length (Data a)) as)"
proof (induction as)
  case Nil
  then show ?case by simp
next
  case (Cons a as)
  then show ?case
    using TimeSlot_writeActions_append
      [of "PlayerID a # WriteUInt16 [] (of_nat (length (Data a))) @ Data a" as]
    by (simp add: Write_defs)
qed

lemma TimeSlot_writeActions_Cons:
  "TimeSlot_writeActions [] (a # as) =
     PlayerID a # ucast (of_nat (length (Data a)) :: u16)
       # ucast (drop_bit 8 (of_nat (length (Data a)) :: u16))
       # (Data a @ TimeSlot_writeActions [] as)"
  using TimeSlot_writeActions_append
      [of "PlayerID a # WriteUInt16 [] (of_nat (length (Data a))) @ Data a" as]
  by (simp add: Write_defs)

lemma TimeSlot_readActions_written:
  "\<forall>a \<in> set as. length (Data a) < 65536 \<Longrightarrow>
     TimeSlot_readActions (int (length (TimeSlot_writeActions [] as)))
       (TimeSlot_writeActions [] as) acc = Ok (acc @ as, [])"
proof (induction as arbitrary: acc)
  case Nil
  then show ?case by (simp add: TimeSlot_readActions_end)
next
  case (Cons a as)
  define R where "R = TimeSlot_writeActions [] as"
  define w :: u16 where "w = of_nat (length (Data a))"
  from Cons.prems have d: "length (Data a) < 65536"
    and as: "\<forall>a \<in> set as. length (Data a) < 65536"
    by simp_all
  have uw: "uint w = int (length (Data a))"
    unfolding w_def using d by (rule uint_of_nat_u16)
  have bytes: "TimeSlot_writeActions [] (a # as) =
      PlayerID a # ucast w # ucast (drop_bit 8 w) # (Data a @ R)"
    unfolding w_def R_def by (rule TimeSlot_writeActions_Cons)
  have "TimeSlot_readActions (int (length (PlayerID a # ucast w # ucast (drop_bit 8 w) # (Data a @ R))))
      (PlayerID a # ucast w # ucast (drop_bit 8 w) # (Data a @ R)) acc =
    TimeSlot_readActions (int (length R)) R (acc @ [\<lparr>PlayerID = PlayerID a, Data = Data a\<rparr>])"
    by (subst TimeSlot_readActions_step)
      (simp_all add: u16_bytes uw ReadBlob_exact rbind_simps Let_def)
  also have "\<dots> = Ok ((acc @ [\<lparr>PlayerID = PlayerID a, Data = Data a\<rparr>]) @ as, [])"
    unfolding R_def using as by (rule Cons.IH)
  finally show ?case
    unfolding bytes by simp
qed

lemma TimeSlot_roundtrip:
  assumes frag: "Fragment r \<longrightarrow> GameVersion enc = 0 \<or> GameVersion enc > 2"
    and len: "2 + sum_list (map (\<lambda>a. 3 + length (Data a)) (Actions r)) < 65536"
  shows "rbind (TimeSlot_Serialize r [] enc)
           (\<lambda>b. TimeSlot_Deserialize \<lparr>Fragment = False, TimeIncrementMS = 0, Actions = []\<rparr>
                  b enc) = Ok (r, [])"
proof -
  define A where "A = TimeSlot_writeActions [] (Actions r)"
  define t where "t = (if Fragment r \<or> (GameVersion enc > 0 \<and> GameVersion enc \<le> 2)
                then RidTimeSlot2 else RidTimeSlot)"
  define w :: u16 where "w = word_of_int (2 + Size A)"
  have lenA: "length A = sum_list (map (\<lambda>a. 3 + length (Data a)) (Actions r))"
    unfolding A_def by (rule length_TimeSlot_writeActions)
  have small: "\<forall>a \<in> set (Actions r). length (Data a) < 65536"
  proof
    fix a assume "a \<in> set (Actions r)"
    then have "3 + length (Data a) \<le> sum_list (map (\<lambda>a. 3 + length (Data a)) (Actions r))"
      by (induction "Actions r" arbitrary: r) (auto simp: member_le_sum_list)
    with len show "length (Data a) < 65536" by simp
  qed
  have uw: "uint w = 2 + int (length A)"
  proof -
    have "w = of_nat (2 + length A)"
      by (simp add: w_def Size_def)
    moreover have "2 + length A < 65536"
      using len lenA by simp
    ultimately show ?thesis
      using uint_of_nat_u16 [of "2 + length A"] by simp
  qed
  have ser: "TimeSlot_Serialize r [] enc =
      Ok (t # ucast w # ucast (drop_bit 8 w) # ucast (TimeIncrementMS r)
            # ucast (drop_bit 8 (TimeIncrementMS r)) # A)"
    unfolding TimeSlot_Serialize_bytes by (simp add: t_def A_def w_def WriteUInt16_def)
  have fr: "(t = RidTimeSlot2 \<and> (GameVersion enc = 0 \<or> GameVersion enc > 2)) = Fragment r"
    using frag gv_early [of "GameVersion enc"] gv_early_pos [of "GameVersion enc"]
    by (auto simp: t_def Rid_defs)
  have loop: "TimeSlot_readActions (int (length A)) A [] = Ok (Actions r, [])"
    unfolding A_def using TimeSlot_readActions_written [OF small, of "[]"] by simp
  show ?thesis
    unfolding ser
    by (cases r)
      (use fr loop in \<open>simp add: rbind_simps TimeSlot_Deserialize_def Size_def ReadUInt8_Cons
        ReadUInt16_Cons u16_bytes uw Let_def\<close>)
qed

lemma ChatMessage_roundtrip:
  assumes "canonical enc (RChatMessage r)"
  shows "rbind (ChatMessage_Serialize r [] enc) (\<lambda>b. ChatMessage_Deserialize np r0 b enc) =
     Ok (r, [])"
proof -
  consider (extra) "Type r = MsgChatExtra" | (chat) "Type r = MsgChat"
    | (other) "Type r \<noteq> MsgChatExtra" "Type r \<noteq> MsgChat"
    by blast
  then show ?thesis
  proof cases
    case extra
    define w :: u16 where "w = of_nat (6 + length (Content r))"
    from assms extra have c: "RecipientIDs r = []" "NewVal r = 0" "0 \<notin> set (Content r)"
      "6 + length (Content r) < 65536"
      by simp_all
    have uw: "uint w = 6 + int (length (Content r))"
      unfolding w_def using uint_of_nat_u16 [OF c(4)] by simp
    have ser: "ChatMessage_Serialize r [] enc =
        Ok (RidChatMessage # SenderID r # WriteUInt16 [] w @
            WriteUInt32 [MsgChatExtra] (Scope r) @ Content r @ 0 # [])"
      using extra by (simp add: ChatMessage_Serialize_def Write_defs w_def)
    have de: "ChatMessage_Deserialize np r0
        (RidChatMessage # SenderID r # WriteUInt16 [] w @
            WriteUInt32 [MsgChatExtra] (Scope r) @ Content r @ 0 # []) enc =
      rbind (ChatMessage_extra np (uint w - 4 - (2 + int (length (Content r)))) [] (Content r))
        (\<lambda>(c, b2). Ok (r0\<lparr>RecipientIDs := [], SenderID := SenderID r, NewVal := 0,
              Type := MsgChatExtra, Scope := Scope r, Content := c\<rparr>, b2))"
      using c(3) uw by (intro ChatMessage_Deserialize_chat_extra) (simp_all add: WriteUInt32_def)
    show ?thesis
      unfolding ser rbind_simps de
      using c extra by (cases r; cases r0) (simp add: uw ChatMessage_extra_end rbind_simps)
  next
    case chat
    define w :: u16 where "w = of_nat (2 + length (Content r))"
    from assms chat have c: "RecipientIDs r = []" "NewVal r = 0" "0 \<notin> set (Content r)"
      "2 + length (Content r) < 65536" "Scope r = ScopeAll"
      by simp_all
    have uw: "uint w = 2 + int (length (Content r))"
      unfolding w_def using uint_of_nat_u16 [OF c(4)] by simp
    have ser: "ChatMessage_Serialize r [] enc =
        Ok (RidChatMessage # SenderID r # WriteUInt16 [] w @ MsgChat # Content r @ 0 # [])"
      using chat by (simp add: ChatMessage_Serialize_def Write_defs w_def)
    have de: "ChatMessage_Deserialize np r0
        (RidChatMessage # SenderID r # WriteUInt16 [] w @ MsgChat # Content r @ 0 # []) enc =
      rbind (ChatMessage_extra np (uint w - (2 + int (length (Content r)))) [] (Content r))
        (\<lambda>(c, b2). Ok (r0\<lparr>RecipientIDs := [], SenderID := SenderID r, Scope := ScopeAll,
              NewVal := 0, Type := MsgChat, Content := c\<rparr>, b2))"
      using c(3) uw by (intro ChatMessage_Deserialize_chat) simp_all
    show ?thesis
      unfolding ser rbind_simps de
      using c chat by (cases r; cases r0) (simp add: uw ChatMessage_extra_end rbind_simps)
  next
    case other
    from assms other have c: "RecipientIDs r = []" "Scope r = ScopeAll" "Content r = []"
      by simp_all
    show ?thesis
      using c other
      by (cases r; cases r0)
        (simp add: ChatMessage_Serialize_def ChatMessage_Deserialize_def Write_defs rbind_simps
          Size_def Skip_def ReadUInt8_Cons ReadUInt16_Cons Let_def)
  qed
qed

lemma kind_of_zero_of: "kind_of (zero_of v) = kind_of v"
  by (cases v) simp_all

lemma rbind_Ok_then:
  "rbind m f = Ok y \<Longrightarrow> rbind m (\<lambda>b. rbind (f b) g) = g y"
  by (cases m) (simp_all add: rbind_simps)

lemma rbind_Ok_ex:
  "rbind m f = Ok y \<Longrightarrow> \<exists>x. m = Ok x \<and> f x = Ok y"
  by (cases m) (simp_all add: rbind_simps)

subsection \<open>TimeSlot: the receiver's old arrays\<close>

text \<open>
  On a receiver without old actions the call with the memory is the call without it,
  whatever the memory holds. On a receiver whose two old \<^verbatim>\<open>Data\<close> slices share an array
  of four bytes (\<^verbatim>\<open>shared[0:2]\<close> and \<^verbatim>\<open>shared[2:4]\<close>), the second action's bytes are
  written over the third byte of the first: the record read is not the record written.
\<close>

lemma append_reuse_nil:
  assumes "append_reuse m nil_slice d = (m1, s)"
  shows "slice_bytes m1 s = d" and "s_len s = 0 \<or> s_arr s < next_free m1"
    and "next_free m \<le> next_free m1" and "\<forall>a < next_free m. arrays m1 a = arrays m a"
proof -
  show "slice_bytes m1 s = d"
    using assms by (cases "d = []") (auto simp: append_reuse_def nil_slice_def slice_bytes_def)
  show "s_len s = 0 \<or> s_arr s < next_free m1"
    using assms by (cases "d = []") (auto simp: append_reuse_def nil_slice_def)
  show "next_free m \<le> next_free m1"
    using assms by (cases "d = []") (auto simp: append_reuse_def nil_slice_def)
  show "\<forall>a < next_free m. arrays m1 a = arrays m a"
    using assms by (cases "d = []") (auto simp: append_reuse_def nil_slice_def)
qed

lemma TimeSlot_readActions_mem_end:
  "sz < 3 \<Longrightarrow>
     TimeSlot_readActions_mem olds sz buf m acts =
       (if sz \<noteq> 0 then Err ErrBadFormat else Ok (acts, m, buf))"
  by (subst TimeSlot_readActions_mem.simps) simp

lemma TimeSlot_readActions_mem_fresh:
  assumes "olds = []" and "\<forall>(p, s) \<in> set macc. s_len s = 0 \<or> s_arr s < next_free m"
  shows "rbind (TimeSlot_readActions_mem olds sz buf m macc)
           (\<lambda>(acts, m1, b). Ok (actions_of m1 acts, b)) =
         TimeSlot_readActions sz buf (actions_of m macc)"
  using assms
proof (induction olds sz buf m macc rule: TimeSlot_readActions_mem.induct)
  case (1 olds sz buf m acts)
  show ?case
  proof (cases "3 \<le> sz")
    case False
    then show ?thesis
      by (simp add: TimeSlot_readActions_mem_end TimeSlot_readActions_end rbind_simps)
  next
    case True
    have step: "rbind (TimeSlot_readActions_mem olds (sz - (3 + uint sub)) b3 m1 (acts @ [(pid, s)]))
           (\<lambda>(acts, m1, b). Ok (actions_of m1 acts, b)) =
         TimeSlot_readActions (sz - (3 + uint sub)) b3
           (actions_of m acts @ [\<lparr>PlayerID = pid, Data = d\<rparr>])"
      if r8: "ReadUInt8 buf = Ok (pid, b1)" and r16: "ReadUInt16 b1 = Ok (sub, b2)"
        and ge: "\<not> sz < uint sub" and rb: "ReadBlob b2 (uint sub) = Ok (d, b3)"
        and ap: "append_reuse m nil_slice d = (m1, s)"
      for pid b1 sub b2 d b3 m1 s
    proof -
      have old: "(if length acts < length olds then snd (olds ! length acts) else nil_slice) =
          nil_slice"
        using "1.prems"(1) by simp
      note facts = append_reuse_nil [OF ap]
      have keep: "slice_bytes m1 s' = slice_bytes m s'"
        if "(p, s') \<in> set acts" for p s'
        using "1.prems"(2) that facts(4) by (auto simp: slice_bytes_def)
      have acc: "actions_of m1 (acts @ [(pid, s)]) =
          actions_of m acts @ [\<lparr>PlayerID = pid, Data = d\<rparr>]"
        using keep facts(1) by (auto simp: actions_of_def)
      have inv: "\<forall>(p, s') \<in> set (acts @ [(pid, s)]). s_len s' = 0 \<or> s_arr s' < next_free m1"
        using "1.prems"(2) facts(2,3) by fastforce
      have ap': "(m1, s) = append_reuse m
          (if length acts < length olds then snd (olds ! length acts) else nil_slice) d"
        unfolding old using ap by simp
      from "1.IH" [OF True r8 refl r16 refl refl ge rb refl refl refl ap' "1.prems"(1) inv]
      show ?thesis
        unfolding acc .
    qed
    have unfold: "rbind (TimeSlot_readActions_mem olds sz buf m acts)
           (\<lambda>(acts, m1, b). Ok (actions_of m1 acts, b)) =
        rbind (rbind (ReadUInt8 buf) (\<lambda>(pid, b1).
          rbind (ReadUInt16 b1) (\<lambda>(sub, b2).
            if sz < uint sub then Err ErrBadFormat
            else rbind (ReadBlob b2 (uint sub)) (\<lambda>(d, b3).
              case append_reuse m nil_slice d of
                (m1, s) \<Rightarrow>
                  TimeSlot_readActions_mem olds (sz - (3 + uint sub)) b3 m1
                    (acts @ [(pid, s)])))))
          (\<lambda>(acts, m1, b). Ok (actions_of m1 acts, b))"
    proof -
      have old: "(if length acts < length olds then snd (olds ! length acts) else nil_slice) =
          nil_slice"
        using "1.prems"(1) by simp
      show ?thesis
        by (subst TimeSlot_readActions_mem.simps) (simp only: True if_True Let_def old)
    qed
    have unfold': "TimeSlot_readActions sz buf (actions_of m acts) =
        rbind (ReadUInt8 buf) (\<lambda>(pid, b1).
          rbind (ReadUInt16 b1) (\<lambda>(sub, b2).
            if sz < uint sub then Err ErrBadFormat
            else rbind (ReadBlob b2 (uint sub)) (\<lambda>(d, b3).
              TimeSlot_readActions (sz - (3 + uint sub)) b3
                (actions_of m acts @ [\<lparr>PlayerID = pid, Data = d\<rparr>]))))"
      by (subst TimeSlot_readActions.simps) (simp only: True if_True Let_def)
    show ?thesis
    proof (cases "ReadUInt8 buf")
      case Panic
      then show ?thesis unfolding unfold unfold' by (simp add: rbind_simps)
    next
      case (Err e)
      then show ?thesis unfolding unfold unfold' by (simp add: rbind_simps)
    next
      case (Ok x)
      obtain pid b1 where x: "x = (pid, b1)" by (cases x)
      note r8 = Ok [unfolded x]
      show ?thesis
      proof (cases "ReadUInt16 b1")
        case Panic
        then show ?thesis unfolding unfold unfold' by (simp add: r8 rbind_simps)
      next
        case (Err e)
        then show ?thesis unfolding unfold unfold' by (simp add: r8 rbind_simps)
      next
        case (Ok y)
        obtain sub b2 where y: "y = (sub, b2)" by (cases y)
        note r16 = Ok [unfolded y]
        show ?thesis
        proof (cases "sz < uint sub")
          case True
          then show ?thesis unfolding unfold unfold' by (simp add: r8 r16 rbind_simps)
        next
          case ge: False
          show ?thesis
          proof (cases "ReadBlob b2 (uint sub)")
            case Panic
            then show ?thesis unfolding unfold unfold' by (simp add: r8 r16 ge rbind_simps)
          next
            case (Err e)
            then show ?thesis unfolding unfold unfold' by (simp add: r8 r16 ge rbind_simps)
          next
            case (Ok z)
            obtain d b3 where z: "z = (d, b3)" by (cases z)
            note rb = Ok [unfolded z]
            obtain m1 s where ap: "append_reuse m nil_slice d = (m1, s)"
              by (cases "append_reuse m nil_slice d")
            show ?thesis
              unfolding unfold unfold'
              using step [OF r8 r16 ge rb ap] by (simp add: r8 r16 ge rb ap rbind_simps)
          qed
        qed
      qed
    qed
  qed
qed

lemma actions_of_Nil: "actions_of m [] = []"
  by (simp add: actions_of_def)

lemma TimeSlot_Deserialize_mem_fresh:
  "TimeSlot_Deserialize_mem [] m rec buf enc = TimeSlot_Deserialize rec buf enc"
proof -
  have loop: "TimeSlot_readActions sz b [] =
      rbind (TimeSlot_readActions_mem [] sz b m [])
        (\<lambda>(acts, m1, b). Ok (actions_of m1 acts, b))" for sz b
    using TimeSlot_readActions_mem_fresh [of "[]" "[]" m sz b] by (simp add: actions_of_Nil)
  show ?thesis
    unfolding TimeSlot_Deserialize_mem_def TimeSlot_Deserialize_def loop
    by (auto simp: rbind_def Let_def split: result.splits prod.splits)
qed

lemma TimeSlot_Deserialize_mem_shared:
  "TimeSlot_Serialize
      \<lparr>Fragment = False, TimeIncrementMS = 0,
       Actions = [\<lparr>PlayerID = 1, Data = [0xa1, 0xa2, 0xa3]\<rparr>,
                  \<lparr>PlayerID = 2, Data = [0xb1, 0xb2]\<rparr>]\<rparr> [] \<lparr>GameVersion = 0\<rparr> =
     Ok [0x1e, 0x0d, 0, 0, 0, 1, 3, 0, 0xa1, 0xa2, 0xa3, 2, 2, 0, 0xb1, 0xb2] \<and>
   TimeSlot_Deserialize_mem
      [(9, \<lparr>s_arr = 0, s_off = 0, s_len = 2, s_cap = 4\<rparr>),
       (8, \<lparr>s_arr = 0, s_off = 2, s_len = 2, s_cap = 2\<rparr>)]
      \<lparr>arrays = (\<lambda>a. [])(0 := [0, 0, 0, 0]), next_free = 1\<rparr>
      \<lparr>Fragment = False, TimeIncrementMS = 0, Actions = []\<rparr>
      [0x1e, 0x0d, 0, 0, 0, 1, 3, 0, 0xa1, 0xa2, 0xa3, 2, 2, 0, 0xb1, 0xb2]
      \<lparr>GameVersion = 0\<rparr> =
     Ok (\<lparr>Fragment = False, TimeIncrementMS = 0,
          Actions = [\<lparr>PlayerID = 1, Data = [0xa1, 0xa2, 0xb1]\<rparr>,
                     \<lparr>PlayerID = 2, Data = [0xb1, 0xb2]\<rparr>]\<rparr>, [])"
  apply (rule conjI)
   apply (simp add: TimeSlot_Serialize_bytes Write_defs Size_simps Rid_defs)
  apply (simp add: TimeSlot_Deserialize_mem_def Size_simps ReadUInt8_Cons ReadUInt16_Cons
      rbind_simps Rid_defs)
  apply (subst TimeSlot_readActions_mem.simps)
  apply (simp add: ReadUInt8_Cons ReadUInt16_Cons ReadBlob_def Size_simps rbind_simps
      append_reuse_def)
  apply (subst TimeSlot_readActions_mem.simps)
  apply (simp add: ReadUInt8_Cons ReadUInt16_Cons ReadBlob_def Size_simps rbind_simps
      append_reuse_def)
  apply (simp add: TimeSlot_readActions_mem_end rbind_simps actions_of_def slice_bytes_def)
  done

lemma TimeSlot_roundtrip_mem:
  assumes "Fragment r \<longrightarrow> GameVersion enc = 0 \<or> GameVersion enc > 2"
    and "2 + sum_list (map (\<lambda>a. 3 + length (Data a)) (Actions r)) < 65536"
  shows "rbind (TimeSlot_Serialize r [] enc)
           (\<lambda>b. TimeSlot_Deserialize_mem [] m
                  \<lparr>Fragment = False, TimeIncrementMS = 0, Actions = []\<rparr> b enc) = Ok (r, [])"
  unfolding TimeSlot_Deserialize_mem_fresh using assms by (rule TimeSlot_roundtrip)

subsection \<open>Values that are not canonical\<close>

text \<open>
  Each condition of \<open>canonical\<close> is needed. A name with a zero byte is cut at it and the
  rest is read as the fields that follow; a scope on a message of type \<^verbatim>\<open>chat\<close> is not
  written; a checksum of 256 bytes has its length written as 0.
\<close>

lemma noncanonical_PlayerInfo_name:
  "PlayerInfo_Serialize \<lparr>ID = 1, Name = [97, 0, 98], Race = 0, JoinCounter = 0\<rparr> []
      \<lparr>GameVersion = 0\<rparr> = Ok [0x16, 1, 97, 0, 98, 0, 1, 0, 0, 0, 0, 0] \<and>
   PlayerInfo_Deserialize \<lparr>ID = 0, Name = [], Race = 0, JoinCounter = 0\<rparr>
      [0x16, 1, 97, 0, 98, 0, 1, 0, 0, 0, 0, 0] \<lparr>GameVersion = 0\<rparr> = Err ErrShortBuffer"
  by (simp add: PlayerInfo_Serialize_def PlayerInfo_SerializeContent_def Write_defs Rid_defs
      PlayerInfo_Deserialize_def PlayerInfo_DeserializeContent_def Size_simps Skip_1_Cons
      ReadUInt8_Cons rbind_simps ReadCString_def ReadString_def Let_def)

lemma noncanonical_ChatMessage_scope:
  "ChatMessage_Serialize
      \<lparr>RecipientIDs = [], SenderID = 2, Type = MsgChat, Scope = 5, NewVal = 0,
       Content = [0x68, 0x69]\<rparr> [] \<lparr>GameVersion = 0\<rparr> =
     Ok [0x20, 2, 4, 0, 0x10, 0x68, 0x69, 0] \<and>
   ChatMessage_Deserialize (\<lambda>s. False)
      \<lparr>RecipientIDs = [], SenderID = 0, Type = 0, Scope = 0, NewVal = 0, Content = []\<rparr>
      [0x20, 2, 4, 0, 0x10, 0x68, 0x69, 0] \<lparr>GameVersion = 0\<rparr> =
     Ok (\<lparr>RecipientIDs = [], SenderID = 2, Type = MsgChat, Scope = 0, NewVal = 0,
          Content = [0x68, 0x69]\<rparr>, [])"
  by (simp add: ChatMessage_Serialize_def Write_defs Rid_defs MsgChat_def MsgChatExtra_def
      ScopeAll_def ChatMessage_Deserialize_def ChatMessage_content_def Size_simps Skip_1_Cons
      ReadUInt8_Cons ReadUInt16_Cons rbind_simps ReadCString_def ReadString_def Let_def
      ChatMessage_extra_end)

lemma noncanonical_TimeSlotAck_checksum:
  "TimeSlotAck_Serialize \<lparr>Checksum = replicate 256 7\<rparr> [] \<lparr>GameVersion = 0\<rparr> =
     Ok (0x22 # 0 # replicate 256 7) \<and>
   TimeSlotAck_Deserialize \<lparr>Checksum = []\<rparr> (0x22 # 0 # replicate 256 7) \<lparr>GameVersion = 0\<rparr> =
     Ok (\<lparr>Checksum = []\<rparr>, replicate 256 7)"
  by (simp add: TimeSlotAck_Serialize_def Write_defs Rid_defs TimeSlotAck_Deserialize_def
      Size_def Skip_1_Cons ReadUInt8_Cons rbind_simps ReadBlob_def Let_def)


subsection \<open>TimeSlot: the loop and the declared length\<close>

text \<open>
  What the loop of \<^verbatim>\<open>TimeSlot.Deserialize\<close> does with an action whose data overruns the
  declared length (\<open>sz - 3 < subsize\<close>): the bad-format error when the guard catches it
  (\<open>sz < subsize\<close>) or when the buffer still holds \<open>subsize\<close> bytes, a panic otherwise.
\<close>

lemma TimeSlot_readActions_overrun:
  assumes "3 \<le> sz" and "subsize = uint (push_bit 8 (ucast hi) OR ucast lo :: u16)"
    and "sz - 3 < subsize"
  shows "TimeSlot_readActions sz (pid # lo # hi # rest) acts =
     (if sz < subsize \<or> subsize \<le> int (length rest) then Err ErrBadFormat else Panic)"
proof -
  have neg: "sz - (3 + subsize) < 3" "sz - (3 + subsize) \<noteq> 0"
    using assms by simp_all
  have pos: "0 < subsize"
    using assms by simp
  show ?thesis
    using assms(1) neg pos
    by (subst TimeSlot_readActions_step)
      (auto simp: assms(2) [symmetric] Let_def ReadBlob_def Size_def rbind_simps
        TimeSlot_readActions_end)
qed

text \<open>
  Apart from the panic, the loop keeps to the declared length: every error it returns is
  the bad-format error, and it succeeds only when the declared length is exactly the
  length of the actions it read, whose bytes are the ones \<^verbatim>\<open>Serialize\<close> writes for them.
\<close>

lemma TimeSlot_readActions_Err:
  "TimeSlot_readActions sz buf acts = Err e \<Longrightarrow> e = ErrBadFormat"
proof (induction sz buf acts rule: TimeSlot_readActions.induct)
  case (1 sz buf acts)
  from "1.prems" have
    "(if sz \<ge> 3 then
        rbind (ReadUInt8 buf) (\<lambda>(pid, b1).
        rbind (ReadUInt16 b1) (\<lambda>(sub, b2).
          let subsize = uint sub in
          if sz < subsize then Err ErrBadFormat
          else rbind (ReadBlob b2 subsize) (\<lambda>(d, b3).
            TimeSlot_readActions (sz - (3 + subsize)) b3
              (acts @ [\<lparr>PlayerID = pid, Data = d\<rparr>]))))
      else if sz \<noteq> 0 then Err ErrBadFormat
      else Ok (acts, buf)) = Err e"
    by (subst (asm) TimeSlot_readActions.simps)
  then show ?case
    using "1.IH"
    by (auto simp: rbind_def Let_def ReadUInt8_def ReadUInt16_def ReadBlob_def
        split: if_splits result.splits prod.splits)
qed

lemma ReadBlob_Ok:
  "ReadBlob b n = Ok (d, b') \<Longrightarrow> 0 \<le> n \<Longrightarrow> b = d @ b' \<and> int (length d) = n"
  by (auto simp: ReadBlob_def Size_def split: if_splits)

lemma ReadUInt8_Ok: "ReadUInt8 b = Ok (x, b') \<Longrightarrow> b = x # b'"
  by (cases b) (auto simp: ReadUInt8_def Size_def split: if_splits)

lemma ReadUInt16_Ok:
  "ReadUInt16 b = Ok (w, b') \<Longrightarrow> b = ucast w # ucast (drop_bit 8 w) # b'"
proof -
  assume a: "ReadUInt16 b = Ok (w, b')"
  then obtain lo hi where b: "b = lo # hi # b'"
    by (cases b; cases "tl b") (auto simp: ReadUInt16_def Size_def split: if_splits)
  with a have w: "w = push_bit 8 (ucast hi) OR ucast lo"
    by (simp add: ReadUInt16_Cons)
  have "ucast w = lo"
    unfolding w by (rule bit_word_eqI) (auto simp: bit_simps)
  moreover have "ucast (drop_bit 8 w) = hi"
    unfolding w by (rule bit_word_eqI) (auto simp: bit_simps dest: bit_imp_le_length)
  ultimately show ?thesis
    using b by simp
qed

lemma TimeSlot_readActions_Ok:
  "TimeSlot_readActions sz buf acts = Ok (acts', buf') \<Longrightarrow>
     \<exists>as. acts' = acts @ as \<and> buf = TimeSlot_writeActions [] as @ buf' \<and>
          sz = int (length (TimeSlot_writeActions [] as))"
proof (induction sz buf acts rule: TimeSlot_readActions.induct)
  case (1 sz buf acts)
  show ?case
  proof (cases "3 \<le> sz")
    case False
    with "1.prems" have "sz = 0" "acts' = acts" "buf' = buf"
      by (auto simp: TimeSlot_readActions_end split: if_splits)
    then show ?thesis
      by (intro exI [of _ "[]"]) simp
  next
    case True
    from "1.prems" True obtain pid b1 sub b2 d b3 where
      r8: "ReadUInt8 buf = Ok (pid, b1)" and r16: "ReadUInt16 b1 = Ok (sub, b2)"
      and ge: "\<not> sz < uint sub" and rb: "ReadBlob b2 (uint sub) = Ok (d, b3)"
      and rec: "TimeSlot_readActions (sz - (3 + uint sub)) b3
            (acts @ [\<lparr>PlayerID = pid, Data = d\<rparr>]) = Ok (acts', buf')"
      by (subst (asm) TimeSlot_readActions.simps)
        (auto simp: rbind_def Let_def split: if_splits result.splits prod.splits)
    from "1.IH" [OF True r8 refl r16 refl refl ge rb refl rec]
    obtain as where as: "acts' = (acts @ [\<lparr>PlayerID = pid, Data = d\<rparr>]) @ as"
      "b3 = TimeSlot_writeActions [] as @ buf'"
      "sz - (3 + uint sub) = int (length (TimeSlot_writeActions [] as))"
      by blast
    from ReadBlob_Ok [OF rb] have d: "b2 = d @ b3" "int (length d) = uint sub"
      by simp_all
    then have sub: "of_nat (length d) = sub"
      by (metis of_int_of_nat_eq word_of_int_uint[of sub] of_int_uint)
    have bytes: "buf = TimeSlot_writeActions [] (\<lparr>PlayerID = pid, Data = d\<rparr> # as) @ buf'"
      using ReadUInt8_Ok [OF r8] ReadUInt16_Ok [OF r16] d(1) as(2) sub
      by (simp del: TimeSlot_writeActions.simps add: TimeSlot_writeActions_Cons)
    have len: "sz = int (length (TimeSlot_writeActions [] (\<lparr>PlayerID = pid, Data = d\<rparr> # as)))"
      using as(3) d(2) by (simp del: TimeSlot_writeActions.simps add: TimeSlot_writeActions_Cons)
    from as(1) bytes len show ?thesis
      by (intro exI [of _ "\<lparr>PlayerID = pid, Data = d\<rparr> # as"]) simp
  qed
qed


section \<open>Claims about the primitives\<close>

text \<open>
  C8. When the buffer holds no zero byte, \<^verbatim>\<open>ReadString\<close> returns the empty string with
  the error \<^verbatim>\<open>ErrNoStringTerminatorFound\<close> and leaves the buffer empty (size zero). When
  the buffer holds a zero byte, it returns the bytes before the first zero, no error, and
  leaves the buffer at the bytes after that zero.
\<close>

theorem C8_ReadString:
  "(0 \<notin> set b \<longrightarrow>
      ReadString b = ([], Some ErrNoStringTerminatorFound, []) \<and>
      Size (snd (snd (ReadString b))) = 0) \<and>
   (0 \<in> set b \<longrightarrow>
      ReadString b =
        (takeWhile (\<lambda>x. x \<noteq> 0) b, None, drop 1 (dropWhile (\<lambda>x. x \<noteq> 0) b)) \<and>
      b = fst (ReadString b) @ 0 # snd (snd (ReadString b)) \<and>
      0 \<notin> set (fst (ReadString b)))"
proof (intro conjI impI)
  assume a: "0 \<notin> set b"
  then show "ReadString b = ([], Some ErrNoStringTerminatorFound, [])"
    by (rule ReadString_unterminated)
  then show "Size (snd (snd (ReadString b))) = 0"
    by (simp add: Size_def)
next
  assume a: "0 \<in> set b"
  define s where "s = takeWhile (\<lambda>x. x \<noteq> 0) b"
  define r where "r = dropWhile (\<lambda>x. x \<noteq> (0::u8)) b"
  have r_ne: "r \<noteq> []" using a by (auto simp: r_def)
  have hd_r: "hd r = 0" using r_ne hd_dropWhile [of "\<lambda>x. x \<noteq> (0::u8)" b] by (simp add: r_def)
  have b_eq: "b = s @ 0 # tl r"
    using r_ne hd_r takeWhile_dropWhile_id [of "\<lambda>x. x \<noteq> (0::u8)" b]
    by (metis s_def r_def list.collapse)
  have s_nz: "0 \<notin> set s"
    by (auto simp: s_def dest: set_takeWhileD)
  have rs: "ReadString b = (s, None, tl r)"
    using ReadString_terminated [OF s_nz, of "tl r"] b_eq by simp
  show "ReadString b =
        (takeWhile (\<lambda>x. x \<noteq> 0) b, None, drop 1 (dropWhile (\<lambda>x. x \<noteq> 0) b))"
    using rs by (simp add: s_def r_def drop_Suc)
  show "b = fst (ReadString b) @ 0 # snd (snd (ReadString b))"
    using rs b_eq by simp
  show "0 \<notin> set (fst (ReadString b))"
    using rs s_nz by simp
qed

theorem C8_ReadString_witness:
  "0 \<notin> set [104, 105 :: u8] \<and>
   ReadString [104, 105] = ([], Some ErrNoStringTerminatorFound, []) \<and>
   0 \<in> set [104, 0, 105, 0 :: u8] \<and>
   ReadString [104, 0, 105, 0] = ([104], None, [105, 0])"
  using C8_ReadString [of "[104, 105]"] C8_ReadString [of "[104, 0, 105, 0]"]
  by simp

text \<open>
  C9. For an address that is not IPv4 (\<^verbatim>\<open>To4\<close> gives \<^verbatim>\<open>nil\<close>), \<^verbatim>\<open>WriteIP\<close> appends
  exactly four zero bytes and returns \<^verbatim>\<open>ErrInvalidIP4\<close>; for an IPv4 address it appends
  the four address bytes and returns no error. The buffer grows by four bytes either way.
\<close>

theorem C9_WriteIP:
  "(To4 v = None \<longrightarrow> WriteIP b v = (b @ [0, 0, 0, 0], Some ErrInvalidIP4)) \<and>
   (\<forall>ip4. To4 v = Some ip4 \<longrightarrow> WriteIP b v = (b @ ip4, None) \<and> length ip4 = 4) \<and>
   Size (fst (WriteIP b v)) = Size b + 4"
proof -
  have len: "length ip4 = 4" if "To4 v = Some ip4" for ip4
    using that by (auto simp: To4_def split: if_splits)
  show ?thesis
  proof (cases "To4 v")
    case None
    then show ?thesis
      by (simp add: WriteIP_def WriteUInt32_def Size_def)
  next
    case (Some ip4)
    with len [of ip4] show ?thesis
      by (simp add: WriteIP_def WriteBlob_def Size_def)
  qed
qed

theorem C9_WriteIP_witness:
  "To4 [1, 2, 3] = None \<and>
   WriteIP [7] [1, 2, 3] = ([7, 0, 0, 0, 0], Some ErrInvalidIP4) \<and>
   To4 [1, 1, 1, 1] = Some [1, 1, 1, 1] \<and>
   WriteIP [7] [1, 1, 1, 1] = ([7, 1, 1, 1, 1], None)"
  using C9_WriteIP [of "[1, 2, 3]" "[7]"] C9_WriteIP [of "[1, 1, 1, 1]" "[7]"]
  by (simp add: To4_def)

text \<open>
  C10. For a string with no zero byte, \<^verbatim>\<open>WriteString\<close> into an empty buffer followed by
  \<^verbatim>\<open>ReadString\<close> returns the string, with no error, and the buffer is empty again. For
  the string \<^verbatim>\<open>"a\x00b"\<close>, which has an interior zero byte, the read succeeds and returns
  only \<^verbatim>\<open>"a"\<close>, a strict prefix: the law needs the precondition.
\<close>

theorem C10_WriteString_ReadString:
  "(0 \<notin> set s \<longrightarrow> ReadString (WriteString [] s) = (s, None, [])) \<and>
   ReadString (WriteString [] [97, 0, 98]) = ([97], None, [98, 0]) \<and>
   strict_prefix [97 :: u8] [97, 0, 98]"
proof (intro conjI impI)
  assume "0 \<notin> set s"
  then show "ReadString (WriteString [] s) = (s, None, [])"
    using ReadString_terminated [of s "[]"]
    by (simp add: WriteString_def WriteBlob_def WriteUInt8_def)
next
  show "ReadString (WriteString [] [97, 0, 98]) = ([97], None, [98, 0])"
    by (simp add: WriteString_def WriteBlob_def WriteUInt8_def ReadString_def Let_def)
next
  show "strict_prefix [97 :: u8] [97, 0, 98]"
    by (simp add: strict_prefix_def prefix_def)
qed

theorem C10_WriteString_ReadString_witness:
  "0 \<notin> set [104, 105 :: u8] \<and>
   ReadString (WriteString [] [104, 105]) = ([104, 105], None, [])"
  using C10_WriteString_ReadString [of "[104, 105]"]
  by simp

section \<open>Claims about the W3G records\<close>

text \<open>
  C1, as the claim states it: every record value survives \<^verbatim>\<open>Serialize\<close> followed by
  \<^verbatim>\<open>Deserialize\<close> under every encoding. A \<^verbatim>\<open>TimeSlot\<close> with \<^verbatim>\<open>Fragment\<close> set does not under
  game version 2: it is written with the tag \<^verbatim>\<open>0x1F\<close>, as every time slot of that version
  is, and reads back with \<^verbatim>\<open>Fragment\<close> false.
\<close>

theorem C1_TimeSlot_fragment_counterexample:
  "TimeSlot_Serialize \<lparr>Fragment = True, TimeIncrementMS = 100, Actions = []\<rparr> []
      \<lparr>GameVersion = 2\<rparr> = Ok [0x1F, 2, 0, 100, 0] \<and>
   TimeSlot_Deserialize \<lparr>Fragment = False, TimeIncrementMS = 0, Actions = []\<rparr>
      [0x1F, 2, 0, 100, 0] \<lparr>GameVersion = 2\<rparr> =
     Ok (\<lparr>Fragment = False, TimeIncrementMS = 100, Actions = []\<rparr>, []) \<and>
   \<lparr>Fragment = False, TimeIncrementMS = 100, Actions = []\<rparr> \<noteq>
     \<lparr>Fragment = True, TimeIncrementMS = 100, Actions = []\<rparr>"
  by (simp add: TimeSlot_Serialize_bytes WriteUInt16_def Size_simps Rid_defs
      TimeSlot_Deserialize_def ReadUInt8_Cons ReadUInt16_Cons rbind_simps
      TimeSlot_readActions_end)

text \<open>
  C1, amended. For every record \<open>v\<close> of the W3G types \<^verbatim>\<open>PlayerInfo\<close>, \<^verbatim>\<open>PlayerLeft\<close>,
  \<^verbatim>\<open>CountDownStart\<close>, \<^verbatim>\<open>CountDownEnd\<close>, \<^verbatim>\<open>GameStart\<close>, \<^verbatim>\<open>TimeSlot\<close>, \<^verbatim>\<open>ChatMessage\<close>,
  \<^verbatim>\<open>TimeSlotAck\<close> and \<^verbatim>\<open>EndTimer\<close> and every encoding under which \<open>v\<close> is canonical,
  \<^verbatim>\<open>Serialize\<close> into an empty buffer succeeds, and \<^verbatim>\<open>Deserialize\<close> of the bytes into a
  fresh record of the same type (the zero value, as a factory constructor returns it)
  succeeds, yields \<open>v\<close> and leaves the buffer empty. Records are compared by their
  fields, a slice by its elements (\<^verbatim>\<open>nil\<close> and the empty slice are one value). The
  receiver has to be fresh: \<^verbatim>\<open>TimeSlot.Deserialize\<close> writes into the arrays that its
  receiver holds (lemma \<open>TimeSlot_Deserialize_mem_shared\<close>).
\<close>

theorem C1_roundtrip_canonical:
  assumes "canonical enc v"
  shows "\<exists>bs. Serialize v [] enc = Ok bs \<and> Deserialize np (zero_of v) bs enc = Ok (v, [])"
proof -
  have "rbind (Serialize v [] enc) (\<lambda>b. Deserialize np (zero_of v) b enc) = Ok (v, [])"
  proof (cases v)
    case (RPlayerInfo r)
    with assms have "0 \<notin> set (Name r)"
      by simp
    from PlayerInfo_roundtrip [OF this] RPlayerInfo show ?thesis
      by (simp add: rbind_Ok_then)
  next
    case (RPlayerLeft r)
    with PlayerLeft_roundtrip [of r enc] show ?thesis
      by (simp add: rbind_Ok_then)
  next
    case RCountDownStart
    with GameStart_roundtrip(2) [of enc] show ?thesis
      by (simp add: rbind_Ok_then)
  next
    case RCountDownEnd
    with GameStart_roundtrip(3) [of enc] show ?thesis
      by (simp add: rbind_Ok_then)
  next
    case RGameStart
    with GameStart_roundtrip(1) [of enc] show ?thesis
      by (simp add: rbind_Ok_then)
  next
    case (RTimeSlot r)
    with assms have "Fragment r \<longrightarrow> GameVersion enc = 0 \<or> GameVersion enc > 2"
      and "2 + sum_list (map (\<lambda>a. 3 + length (Data a)) (Actions r)) < 65536"
      by simp_all
    from TimeSlot_roundtrip [OF this] RTimeSlot show ?thesis
      by (simp add: rbind_Ok_then)
  next
    case (RChatMessage r)
    from assms have c: "canonical enc (RChatMessage r)"
      unfolding RChatMessage .
    from ChatMessage_roundtrip [OF c] RChatMessage show ?thesis
      by (simp add: rbind_Ok_then)
  next
    case (RTimeSlotAck r)
    with assms have "length (Checksum r) < 256"
      by simp
    from TimeSlotAck_roundtrip [OF this] RTimeSlotAck show ?thesis
      by (simp add: rbind_Ok_then)
  next
    case (REndTimer r)
    with EndTimer_roundtrip [of r enc] show ?thesis
      by (simp add: rbind_Ok_then)
  qed
  then show ?thesis
    by (rule rbind_Ok_ex)
qed

theorem C1_roundtrip_canonical_witness:
  "canonical \<lparr>GameVersion = 30\<rparr>
     (RTimeSlot \<lparr>Fragment = True, TimeIncrementMS = 100,
                 Actions = [\<lparr>PlayerID = 1, Data = [5, 6]\<rparr>]\<rparr>) \<and>
   Serialize
     (RTimeSlot \<lparr>Fragment = True, TimeIncrementMS = 100,
                 Actions = [\<lparr>PlayerID = 1, Data = [5, 6]\<rparr>]\<rparr>)
     [] \<lparr>GameVersion = 30\<rparr> = Ok [0x1F, 7, 0, 100, 0, 1, 2, 0, 5, 6] \<and>
   Deserialize (\<lambda>s. False) (RTimeSlot \<lparr>Fragment = False, TimeIncrementMS = 0, Actions = []\<rparr>)
     [0x1F, 7, 0, 100, 0, 1, 2, 0, 5, 6] \<lparr>GameVersion = 30\<rparr> =
     Ok (RTimeSlot \<lparr>Fragment = True, TimeIncrementMS = 100,
                    Actions = [\<lparr>PlayerID = 1, Data = [5, 6]\<rparr>]\<rparr>, [])"
proof -
  define v where "v = RTimeSlot \<lparr>Fragment = True, TimeIncrementMS = 100,
                 Actions = [\<lparr>PlayerID = 1, Data = [5, 6]\<rparr>]\<rparr>"
  have c: "canonical \<lparr>GameVersion = 30\<rparr> v"
    by (simp add: v_def)
  have z: "zero_of v = RTimeSlot \<lparr>Fragment = False, TimeIncrementMS = 0, Actions = []\<rparr>"
    by (simp add: v_def)
  have ser: "Serialize v [] \<lparr>GameVersion = 30\<rparr> = Ok [0x1F, 7, 0, 100, 0, 1, 2, 0, 5, 6]"
    by (simp add: v_def TimeSlot_Serialize_bytes Write_defs Size_simps Rid_defs)
  from C1_roundtrip_canonical [OF c, of "\<lambda>s. False"] ser
  have "Deserialize (\<lambda>s. False) (zero_of v) [0x1F, 7, 0, 100, 0, 1, 2, 0, 5, 6]
      \<lparr>GameVersion = 30\<rparr> = Ok (v, [])"
    by auto
  with c ser show ?thesis
    unfolding z by (simp add: v_def)
qed

text \<open>
  C3. For every game version, the W3G factory has a constructor for the record identifier
  \<^verbatim>\<open>0x20\<close>; it makes a \<^verbatim>\<open>ChatMessage\<close> when the game version is 0 or greater than 2, and
  a \<^verbatim>\<open>TimeSlotAck\<close> otherwise, which is when the game version is 1 or 2.
\<close>

theorem C3_factory_0x20:
  "(GameVersion e = 0 \<or> GameVersion e > 2 \<longrightarrow>
      map_option (\<lambda>ctor. ctor e) (DefaultFactory 0x20) = Some KChatMessage) \<and>
   (\<not> (GameVersion e = 0 \<or> GameVersion e > 2) \<longrightarrow>
      map_option (\<lambda>ctor. ctor e) (DefaultFactory 0x20) = Some KTimeSlotAck) \<and>
   ((\<not> (GameVersion e = 0 \<or> GameVersion e > 2)) =
      (1 \<le> GameVersion e \<and> GameVersion e \<le> 2))"
proof (intro conjI impI)
  show "(\<not> (GameVersion e = 0 \<or> GameVersion e > 2)) =
      (1 \<le> GameVersion e \<and> GameVersion e \<le> 2)"
    by (rule gv_early)
qed (simp_all add: DefaultFactory_def Rid_defs)

theorem C3_factory_0x20_witness:
  "map_option (\<lambda>ctor. ctor \<lparr>GameVersion = 0\<rparr>) (DefaultFactory 0x20) = Some KChatMessage \<and>
   map_option (\<lambda>ctor. ctor \<lparr>GameVersion = 30\<rparr>) (DefaultFactory 0x20) = Some KChatMessage \<and>
   map_option (\<lambda>ctor. ctor \<lparr>GameVersion = 1\<rparr>) (DefaultFactory 0x20) = Some KTimeSlotAck \<and>
   map_option (\<lambda>ctor. ctor \<lparr>GameVersion = 2\<rparr>) (DefaultFactory 0x20) = Some KTimeSlotAck"
  using C3_factory_0x20 [of "\<lparr>GameVersion = 0\<rparr>"] C3_factory_0x20 [of "\<lparr>GameVersion = 30\<rparr>"]
    C3_factory_0x20 [of "\<lparr>GameVersion = 1\<rparr>"] C3_factory_0x20 [of "\<lparr>GameVersion = 2\<rparr>"]
  by simp

text \<open>
  C4, as the claim states its last sentence: on deserialization the tag is recorded in
  \<^verbatim>\<open>Fragment\<close>. With game version 2 it is not: the record tagged \<^verbatim>\<open>0x1F\<close> and the record
  tagged \<^verbatim>\<open>0x1E\<close> deserialize to the same value, with \<^verbatim>\<open>Fragment\<close> false.
\<close>

theorem C4_fragment_early_version_counterexample:
  "TimeSlot_Deserialize \<lparr>Fragment = False, TimeIncrementMS = 0, Actions = []\<rparr>
      [0x1F, 2, 0, 0, 0] \<lparr>GameVersion = 2\<rparr> =
     Ok (\<lparr>Fragment = False, TimeIncrementMS = 0, Actions = []\<rparr>, []) \<and>
   TimeSlot_Deserialize \<lparr>Fragment = False, TimeIncrementMS = 0, Actions = []\<rparr>
      [0x1E, 2, 0, 0, 0] \<lparr>GameVersion = 2\<rparr> =
     Ok (\<lparr>Fragment = False, TimeIncrementMS = 0, Actions = []\<rparr>, [])"
  by (simp add: TimeSlot_Deserialize_def Size_simps ReadUInt8_Cons ReadUInt16_Cons rbind_simps
      Rid_defs TimeSlot_readActions_end)

text \<open>
  C4, amended. \<^verbatim>\<open>TimeSlot.Serialize\<close> appends the tag \<^verbatim>\<open>0x1F\<close> when \<^verbatim>\<open>Fragment\<close> is true or
  the game version is 1 or 2, and \<^verbatim>\<open>0x1E\<close> otherwise; with game version 2 and no fragment
  the tag is \<^verbatim>\<open>0x1F\<close>, with game version 30 and no fragment it is \<^verbatim>\<open>0x1E\<close>. The factory
  makes a \<^verbatim>\<open>TimeSlot\<close> for both tags. A successful \<^verbatim>\<open>Deserialize\<close> sets \<^verbatim>\<open>Fragment\<close> to
  true exactly when the tag is \<^verbatim>\<open>0x1F\<close> and the game version is 0 or greater than 2; with
  game version 1 or 2 it is false for either tag.
\<close>

theorem C4_TimeSlot_tag:
  "(\<exists>rest. TimeSlot_Serialize rec buf enc =
      Ok (buf @ (if Fragment rec \<or> (1 \<le> GameVersion enc \<and> GameVersion enc \<le> 2)
                 then 0x1F else 0x1E) # rest)) \<and>
   (\<exists>rest. TimeSlot_Serialize (rec\<lparr>Fragment := False\<rparr>) [] \<lparr>GameVersion = 2\<rparr> =
      Ok (0x1F # rest)) \<and>
   (\<exists>rest. TimeSlot_Serialize (rec\<lparr>Fragment := False\<rparr>) [] \<lparr>GameVersion = 30\<rparr> =
      Ok (0x1E # rest)) \<and>
   map_option (\<lambda>ctor. ctor enc) (DefaultFactory 0x1E) = Some KTimeSlot \<and>
   map_option (\<lambda>ctor. ctor enc) (DefaultFactory 0x1F) = Some KTimeSlot \<and>
   (\<forall>rec' buf'. TimeSlot_Deserialize r0 (tag # body) enc = Ok (rec', buf') \<longrightarrow>
      Fragment rec' = (tag = 0x1F \<and> (GameVersion enc = 0 \<or> GameVersion enc > 2)))"
proof (intro conjI allI impI)
  show "\<exists>rest. TimeSlot_Serialize rec buf enc =
      Ok (buf @ (if Fragment rec \<or> (1 \<le> GameVersion enc \<and> GameVersion enc \<le> 2)
                 then 0x1F else 0x1E) # rest)"
    unfolding TimeSlot_Serialize_bytes gv_early_pos
    by (simp add: Rid_defs)
  show "\<exists>rest. TimeSlot_Serialize (rec\<lparr>Fragment := False\<rparr>) [] \<lparr>GameVersion = 2\<rparr> =
      Ok (0x1F # rest)"
    unfolding TimeSlot_Serialize_bytes
    by (simp add: Rid_defs)
  show "\<exists>rest. TimeSlot_Serialize (rec\<lparr>Fragment := False\<rparr>) [] \<lparr>GameVersion = 30\<rparr> =
      Ok (0x1E # rest)"
    unfolding TimeSlot_Serialize_bytes
    by (simp add: Rid_defs)
  show "map_option (\<lambda>ctor. ctor enc) (DefaultFactory 0x1E) = Some KTimeSlot"
    by (simp add: DefaultFactory_def Rid_defs)
  show "map_option (\<lambda>ctor. ctor enc) (DefaultFactory 0x1F) = Some KTimeSlot"
    by (simp add: DefaultFactory_def Rid_defs)
next
  fix rec' buf'
  assume "TimeSlot_Deserialize r0 (tag # body) enc = Ok (rec', buf')"
  then show "Fragment rec' = (tag = 0x1F \<and> (GameVersion enc = 0 \<or> GameVersion enc > 2))"
    by (auto simp: TimeSlot_Deserialize_def ReadUInt8_Cons rbind_def Let_def Rid_defs
        split: if_splits result.splits prod.splits)
qed

theorem C4_TimeSlot_tag_witness:
  "TimeSlot_Deserialize \<lparr>Fragment = False, TimeIncrementMS = 0, Actions = []\<rparr>
      [0x1F, 2, 0, 7, 0] \<lparr>GameVersion = 30\<rparr> =
     Ok (\<lparr>Fragment = True, TimeIncrementMS = 7, Actions = []\<rparr>, []) \<and>
   Fragment \<lparr>Fragment = True, TimeIncrementMS = 7, Actions = []\<rparr> =
     (0x1F = (0x1F :: u8) \<and>
      (GameVersion \<lparr>GameVersion = 30\<rparr> = 0 \<or> GameVersion \<lparr>GameVersion = 30\<rparr> > 2))"
proof -
  have d: "TimeSlot_Deserialize \<lparr>Fragment = False, TimeIncrementMS = 0, Actions = []\<rparr>
      [0x1F, 2, 0, 7, 0] \<lparr>GameVersion = 30\<rparr> =
     Ok (\<lparr>Fragment = True, TimeIncrementMS = 7, Actions = []\<rparr>, [])"
    by (simp add: TimeSlot_Deserialize_def Size_simps ReadUInt8_Cons ReadUInt16_Cons
        rbind_simps Rid_defs TimeSlot_readActions_end)
  from C4_TimeSlot_tag
    [of _ _ "\<lparr>GameVersion = 30\<rparr>" "\<lparr>Fragment = False, TimeIncrementMS = 0, Actions = []\<rparr>"
      "0x1F" "[2, 0, 7, 0]"] d
  show ?thesis
    by simp
qed

text \<open>
  C5, as the claim states it: the message with sender 2, type \<^verbatim>\<open>chat_extra\<close>, scope 0
  and content \<^verbatim>\<open>"hi"\<close> serializes with the length field \<^verbatim>\<open>0x0009\<close>. It does not.
\<close>

theorem C5_ChatMessage_length_counterexample:
  "ChatMessage_Serialize
      \<lparr>RecipientIDs = [], SenderID = 2, Type = MsgChatExtra, Scope = ScopeAll, NewVal = 0,
       Content = [0x68, 0x69]\<rparr> [] \<lparr>GameVersion = 0\<rparr>
    \<noteq> Ok [0x20, 0x02, 0x09, 0x00, 0x20, 0x00, 0x00, 0x00, 0x00, 0x68, 0x69, 0x00]"
  by (simp add: ChatMessage_Serialize_def Write_defs Rid_defs MsgChatExtra_def MsgChat_def
      ScopeAll_def)

text \<open>
  C5, amended. The message serializes to the tag \<^verbatim>\<open>0x20\<close>, the sender \<^verbatim>\<open>02\<close>, the length
  \<^verbatim>\<open>0x0008\<close> as two little-endian bytes (the eight bytes that follow: one of type, four of
  scope, three of content), the type \<^verbatim>\<open>0x20\<close>, the scope \<^verbatim>\<open>00 00 00 00\<close> and the
  payload \<^verbatim>\<open>68 69 00\<close>, under every encoding.
\<close>

theorem C5_ChatMessage_bytes:
  "ChatMessage_Serialize
      \<lparr>RecipientIDs = [], SenderID = 2, Type = MsgChatExtra, Scope = ScopeAll, NewVal = 0,
       Content = [0x68, 0x69]\<rparr> [] enc
    = Ok [0x20, 0x02, 0x08, 0x00, 0x20, 0x00, 0x00, 0x00, 0x00, 0x68, 0x69, 0x00]"
  by (simp add: ChatMessage_Serialize_def Write_defs Rid_defs MsgChatExtra_def MsgChat_def
      ScopeAll_def)

text \<open>
  C2, as the claim states it: on an empty buffer \<^verbatim>\<open>Deserialize\<close> returns
  \<^verbatim>\<open>ErrInvalidPacketSize\<close>. \<^verbatim>\<open>GameInfo.Deserialize\<close> returns \<^verbatim>\<open>io.ErrShortBuffer\<close>, another
  error value.
\<close>

theorem C2_GameInfo_empty_counterexample:
  "GameInfo_Deserialize (\<lambda>gs b e. Ok (gs, b))
      \<lparr>HostPlayer = \<lparr>ID = 0, Name = [], Race = 0, JoinCounter = 0\<rparr>, GameName = [],
       GameSettings = (), GameFlags = 0, NumSlots = 0, LanguageID = 0\<rparr>
      [] \<lparr>GameVersion = 0\<rparr>
    \<noteq> Err ErrInvalidPacketSize"
  by (simp add: GameInfo_Deserialize_def Size_simps)

text \<open>
  C2, amended. For every W3G record type, \<^verbatim>\<open>Deserialize\<close> on an empty buffer returns the
  error \<^verbatim>\<open>io.ErrShortBuffer\<close>, whatever the receiver, the encoding and the content codecs
  of package \<^verbatim>\<open>w3gs\<close> are: the size check comes before every read, and nothing panics.
\<close>

theorem C2_W3G_empty_buffer:
  "GameInfo_Deserialize gsd gi [] enc = Err ErrShortBuffer \<and>
   PlayerInfo_Deserialize pi [] enc = Err ErrShortBuffer \<and>
   PlayerLeft_Deserialize pl [] enc = Err ErrShortBuffer \<and>
   SlotInfo_Deserialize sdc si [] enc = Err ErrShortBuffer \<and>
   CountDownStart_Deserialize [] enc = Err ErrShortBuffer \<and>
   CountDownEnd_Deserialize [] enc = Err ErrShortBuffer \<and>
   GameStart_Deserialize [] enc = Err ErrShortBuffer \<and>
   TimeSlot_Deserialize ts [] enc = Err ErrShortBuffer \<and>
   ChatMessage_Deserialize np cm [] enc = Err ErrShortBuffer \<and>
   TimeSlotAck_Deserialize ta [] enc = Err ErrShortBuffer \<and>
   Desync_Deserialize ddc ds [] enc = Err ErrShortBuffer \<and>
   EndTimer_Deserialize et [] enc = Err ErrShortBuffer \<and>
   PlayerExtra_Deserialize pdc pe [] enc = Err ErrShortBuffer"
  by (simp add: GameInfo_Deserialize_def PlayerInfo_Deserialize_def PlayerLeft_Deserialize_def
      SlotInfo_Deserialize_def CountDownStart_Deserialize_def CountDownEnd_Deserialize_def
      GameStart_Deserialize_def TimeSlot_Deserialize_def ChatMessage_Deserialize_def
      TimeSlotAck_Deserialize_def Desync_Deserialize_def EndTimer_Deserialize_def
      PlayerExtra_Deserialize_def Size_simps)

text \<open>
  C6, at the input where the code leaves the claim. The record \<^verbatim>\<open>1E 05 00 00 00 01 03 00\<close>
  declares five bytes: the time increment and one action header whose data length, 3,
  overruns the declared length. The check \<^verbatim>\<open>size < subsize\<close> compares 3 with 3 and lets it
  pass, and \<^verbatim>\<open>ReadBlob(3)\<close> slices the empty buffer: the call panics where the claim has
  it return the bad-format error.
\<close>

theorem C6_TimeSlot_overrun_panics:
  "TimeSlot_Deserialize rec [0x1E, 5, 0, 0, 0, 1, 3, 0] enc = Panic"
  by (simp add: TimeSlot_Deserialize_def Size_simps ReadUInt8_Cons ReadUInt16_Cons rbind_simps
      TimeSlot_readActions_step ReadBlob_def)

text \<open>
  C7. A \<^verbatim>\<open>ChatMessage\<close> record of type \<^verbatim>\<open>chat\<close> or \<^verbatim>\<open>chat_extra\<close> is laid out as tag,
  sender, declared length \<open>w\<close>, the type byte (and the scope for \<^verbatim>\<open>chat_extra\<close>) and a first
  null-terminated string \<open>s0\<close>. First part: when the rest of the declared length holds the
  null-terminated strings \<open>ss\<close>, all printable, \<^verbatim>\<open>Deserialize\<close> succeeds and the content is
  \<open>s0\<close> followed by the strings of \<open>ss\<close>, concatenated; the bytes after the declared length
  stay in the buffer. Second part: when a continuation string \<open>bad\<close> that starts within the
  declared length (after the continuation strings \<open>pre\<close>) holds a rune that is not
  printable, \<^verbatim>\<open>Deserialize\<close> returns \<^verbatim>\<open>ErrBadFormat\<close>. \<open>np\<close> is the standard library's test
  for a non-printable rune.
\<close>

theorem C7_ChatMessage_continuation:
  assumes ty: "ty = MsgChat \<or> ty = MsgChatExtra"
    and hdr: "hdr = (if ty = MsgChatExtra then WriteUInt32 [ty] sc else [ty])"
    and s0: "0 \<notin> set s0"
  shows
    "((\<forall>s \<in> set ss. 0 \<notin> set s \<and> \<not> np s) \<and>
      uint w = int (length (hdr @ s0 @ [0] @ concat (map (\<lambda>s. s @ [0]) ss))) \<longrightarrow>
      ChatMessage_Deserialize np r0
          (tag # sid # WriteUInt16 [] w @ hdr @ s0 @ [0] @
             concat (map (\<lambda>s. s @ [0]) ss) @ rest) enc =
        Ok (\<lparr>RecipientIDs = [], SenderID = sid, Type = ty,
             Scope = (if ty = MsgChatExtra then sc else ScopeAll), NewVal = 0,
             Content = s0 @ concat ss\<rparr>, rest)) \<and>
     ((\<forall>s \<in> set pre. 0 \<notin> set s) \<and> 0 \<notin> set bad \<and> np bad \<and>
      int (length (hdr @ s0 @ [0] @ concat (map (\<lambda>s. s @ [0]) pre))) < uint w \<and>
      uint w \<le> int (length (hdr @ s0 @ [0] @ concat (map (\<lambda>s. s @ [0]) pre) @
                                bad @ [0] @ rest)) \<longrightarrow>
      ChatMessage_Deserialize np r0
          (tag # sid # WriteUInt16 [] w @ hdr @ s0 @ [0] @
             concat (map (\<lambda>s. s @ [0]) pre) @ bad @ [0] @ rest) enc =
        Err ErrBadFormat)"
proof (intro conjI impI)
  assume a: "(\<forall>s \<in> set ss. 0 \<notin> set s \<and> \<not> np s) \<and>
      uint w = int (length (hdr @ s0 @ [0] @ concat (map (\<lambda>s. s @ [0]) ss)))"
  define cs where "cs = concat (map (\<lambda>s. s @ [0]) ss)"
  from a have pr: "\<forall>s \<in> set ss. 0 \<notin> set s \<and> \<not> np s"
    and w: "uint w = int (length (hdr @ s0 @ [0] @ cs))"
    by (simp_all add: cs_def)
  have loop: "ChatMessage_extra np (int (length cs)) (cs @ rest) s0 = Ok (s0 @ concat ss, rest)"
    unfolding cs_def using pr by (rule ChatMessage_extra_printable)
  show "ChatMessage_Deserialize np r0
          (tag # sid # WriteUInt16 [] w @ hdr @ s0 @ [0] @
             concat (map (\<lambda>s. s @ [0]) ss) @ rest) enc =
        Ok (\<lparr>RecipientIDs = [], SenderID = sid, Type = ty,
             Scope = (if ty = MsgChatExtra then sc else ScopeAll), NewVal = 0,
             Content = s0 @ concat ss\<rparr>, rest)"
  proof (cases "ty = MsgChatExtra")
    case True
    with hdr have h: "hdr = WriteUInt32 [MsgChatExtra] sc" by simp
    have sz: "uint w - 4 - (2 + int (length s0)) = int (length cs)"
      using w by (simp add: h WriteUInt32_def)
    have "ChatMessage_Deserialize np r0
        (tag # sid # WriteUInt16 [] w @ WriteUInt32 [MsgChatExtra] sc @ s0 @ 0 # (cs @ rest)) enc =
      rbind (ChatMessage_extra np (uint w - 4 - (2 + int (length s0))) (cs @ rest) s0)
        (\<lambda>(c, b2). Ok (r0\<lparr>RecipientIDs := [], SenderID := sid, NewVal := 0,
              Type := MsgChatExtra, Scope := sc, Content := c\<rparr>, b2))"
      using s0 w by (intro ChatMessage_Deserialize_chat_extra) (simp_all add: h WriteUInt32_def)
    then show ?thesis
      unfolding sz loop using True by (cases r0) (simp add: h cs_def rbind_simps)
  next
    case False
    with ty hdr have t: "ty = MsgChat" and h: "hdr = [MsgChat]" by simp_all
    have sz: "uint w - (2 + int (length s0)) = int (length cs)"
      using w by (simp add: h)
    have "ChatMessage_Deserialize np r0
        (tag # sid # WriteUInt16 [] w @ MsgChat # s0 @ 0 # (cs @ rest)) enc =
      rbind (ChatMessage_extra np (uint w - (2 + int (length s0))) (cs @ rest) s0)
        (\<lambda>(c, b2). Ok (r0\<lparr>RecipientIDs := [], SenderID := sid, Scope := ScopeAll,
              NewVal := 0, Type := MsgChat, Content := c\<rparr>, b2))"
      using s0 w by (intro ChatMessage_Deserialize_chat) (simp_all add: h)
    then show ?thesis
      unfolding sz loop using t by (cases r0) (simp add: h cs_def rbind_simps)
  qed
next
  assume a: "(\<forall>s \<in> set pre. 0 \<notin> set s) \<and> 0 \<notin> set bad \<and> np bad \<and>
      int (length (hdr @ s0 @ [0] @ concat (map (\<lambda>s. s @ [0]) pre))) < uint w \<and>
      uint w \<le> int (length (hdr @ s0 @ [0] @ concat (map (\<lambda>s. s @ [0]) pre) @
                                bad @ [0] @ rest))"
  define cs where "cs = concat (map (\<lambda>s. s @ [0]) pre)"
  from a have pr: "\<forall>s \<in> set pre. 0 \<notin> set s" and bad: "0 \<notin> set bad" "np bad"
    and lo: "int (length (hdr @ s0 @ [0] @ cs)) < uint w"
    and hi: "uint w \<le> int (length (hdr @ s0 @ [0] @ cs @ bad @ [0] @ rest))"
    by (simp_all add: cs_def)
  have loop: "ChatMessage_extra np sz (cs @ bad @ 0 # rest) s0 = Err ErrBadFormat"
    if "int (length cs) < sz" for sz
    unfolding cs_def using pr bad that [unfolded cs_def]
    by (rule ChatMessage_extra_nonprintable)
  show "ChatMessage_Deserialize np r0
          (tag # sid # WriteUInt16 [] w @ hdr @ s0 @ [0] @
             concat (map (\<lambda>s. s @ [0]) pre) @ bad @ [0] @ rest) enc =
        Err ErrBadFormat"
  proof (cases "ty = MsgChatExtra")
    case True
    with hdr have h: "hdr = WriteUInt32 [MsgChatExtra] sc" by simp
    have sz: "int (length cs) < uint w - 4 - (2 + int (length s0))"
      using lo by (simp add: h WriteUInt32_def)
    have "ChatMessage_Deserialize np r0
        (tag # sid # WriteUInt16 [] w @ WriteUInt32 [MsgChatExtra] sc @ s0 @
           0 # (cs @ bad @ 0 # rest)) enc =
      rbind (ChatMessage_extra np (uint w - 4 - (2 + int (length s0))) (cs @ bad @ 0 # rest) s0)
        (\<lambda>(c, b2). Ok (r0\<lparr>RecipientIDs := [], SenderID := sid, NewVal := 0,
              Type := MsgChatExtra, Scope := sc, Content := c\<rparr>, b2))"
      using s0 lo hi
      by (intro ChatMessage_Deserialize_chat_extra) (simp_all add: h WriteUInt32_def)
    then show ?thesis
      unfolding loop [OF sz] by (simp add: h cs_def rbind_simps)
  next
    case False
    with ty hdr have t: "ty = MsgChat" and h: "hdr = [MsgChat]" by simp_all
    have sz: "int (length cs) < uint w - (2 + int (length s0))"
      using lo by (simp add: h)
    have "ChatMessage_Deserialize np r0
        (tag # sid # WriteUInt16 [] w @ MsgChat # s0 @ 0 # (cs @ bad @ 0 # rest)) enc =
      rbind (ChatMessage_extra np (uint w - (2 + int (length s0))) (cs @ bad @ 0 # rest) s0)
        (\<lambda>(c, b2). Ok (r0\<lparr>RecipientIDs := [], SenderID := sid, Scope := ScopeAll,
              NewVal := 0, Type := MsgChat, Content := c\<rparr>, b2))"
      using s0 lo hi by (intro ChatMessage_Deserialize_chat) (simp_all add: h)
    then show ?thesis
      unfolding loop [OF sz] by (simp add: h cs_def rbind_simps)
  qed
qed

theorem C7_ChatMessage_continuation_witness:
  "ChatMessage_Deserialize (\<lambda>s. 7 \<in> set s)
      \<lparr>RecipientIDs = [], SenderID = 0, Type = 0, Scope = 0, NewVal = 0, Content = []\<rparr>
      [0x20, 2, 11, 0, 0x20, 0, 0, 0, 0, 104, 105, 0, 65, 66, 0, 99] \<lparr>GameVersion = 0\<rparr> =
     Ok (\<lparr>RecipientIDs = [], SenderID = 2, Type = 0x20, Scope = 0, NewVal = 0,
          Content = [104, 105, 65, 66]\<rparr>, [99]) \<and>
   7 \<in> set [65, 7 :: u8] \<and>
   ChatMessage_Deserialize (\<lambda>s. 7 \<in> set s)
      \<lparr>RecipientIDs = [], SenderID = 0, Type = 0, Scope = 0, NewVal = 0, Content = []\<rparr>
      [0x20, 2, 11, 0, 0x20, 0, 0, 0, 0, 104, 105, 0, 65, 7, 0, 99] \<lparr>GameVersion = 0\<rparr> =
     Err ErrBadFormat"
proof -
  have ty: "MsgChatExtra = MsgChat \<or> MsgChatExtra = MsgChatExtra"
    by simp
  have hdr: "[0x20, 0, 0, 0, 0] =
      (if MsgChatExtra = MsgChatExtra then WriteUInt32 [MsgChatExtra] 0 else [MsgChatExtra])"
    by (simp add: WriteUInt32_def MsgChatExtra_def)
  have s0: "0 \<notin> set [104, 105 :: u8]"
    by simp
  from C7_ChatMessage_continuation [OF ty hdr s0,
      where ss = "[[65, 66]]" and np = "\<lambda>s. 7 \<in> set s" and w = 11 and rest = "[99]"
        and pre = "[]" and bad = "[65, 7]" and tag = "0x20" and sid = 2
        and ?r0.0 = "\<lparr>RecipientIDs = [], SenderID = 0, Type = 0, Scope = 0, NewVal = 0, Content = []\<rparr>"
        and enc = "\<lparr>GameVersion = 0\<rparr>"]
  show ?thesis
    by (simp add: WriteUInt16_def MsgChatExtra_def)
qed

end
